theory Spec2Isabelle
  imports Main "HOL-Library.AList"
begin

section \<open>Values of the host language\<close>

text \<open>
  Strings are byte strings: a JavaScript string is identified with the UTF-8 encoding of
  its (well-formed) text. JSON values are modelled with objects as ordered key/value
  lists, since the insertion order of properties is what \<^verbatim>\<open>JSON.stringify\<close> emits.
  All numbers that occur in payloads are non-negative integers (zod:
  \<^verbatim>\<open>z.number().int().nonnegative()\<close>, or a counter starting at 0).
\<close>

datatype json =
    JNull
  | JBool bool
  | JNum nat
  | JStr string
  | JArr "json list"
  | JObj "(string \<times> json) list"

text \<open>Property read \<^verbatim>\<open>obj[k]\<close>; \<open>None\<close> is \<^verbatim>\<open>undefined\<close>.\<close>

fun jfield :: "string \<Rightarrow> json \<Rightarrow> json option" where
  "jfield k (JObj kvs) = map_of kvs k"
| "jfield k _ = None"

text \<open>
  Truthiness of an optional string (\<^verbatim>\<open>if (x)\<close> where \<^verbatim>\<open>x: string | undefined\<close>):
  \<^verbatim>\<open>undefined\<close> and the empty string are falsy.
\<close>

fun truthy :: "string option \<Rightarrow> bool" where
  "truthy None = False"
| "truthy (Some s) = (s \<noteq> [])"

text \<open>\<^verbatim>\<open>xs?.length\<close> / \<^verbatim>\<open>xs && xs.length\<close> as a condition: defined and non-empty.\<close>

fun has_length :: "'a list option \<Rightarrow> bool" where
  "has_length None = False"
| "has_length (Some xs) = (xs \<noteq> [])"

text \<open>The elements of an optional array; read only under a \<open>has_length\<close> guard.\<close>

fun items_of :: "'a list option \<Rightarrow> 'a list" where
  "items_of None = []"
| "items_of (Some xs) = xs"

section \<open>Input schemas (zod)\<close>

datatype checklist_item_input =
    CIString string
  | CIObject string "bool option"

record structured_todo =
  st_title :: string
  st_notes :: "string option"
  st_when :: "string option"
  st_deadline :: "string option"
  st_checklistItems :: "checklist_item_input list option"
  st_tags :: "string list option"
  st_canceled :: "bool option"
  st_completed :: "bool option"
  st_area :: "string option"
  st_area_id :: "string option"
  st_heading_id :: "string option"
  st_list_id :: "string option"
  st_index :: "nat option"

record structured_heading =
  sh_title :: string
  sh_notes :: "string option"
  sh_index :: "nat option"
  sh_items :: "structured_todo list option"

datatype structured_project_item =
    SPHeading structured_heading
  | SPTodo structured_todo

record structured_project =
  sp_title :: string
  sp_notes :: "string option"
  sp_when :: "string option"
  sp_deadline :: "string option"
  sp_tags :: "string list option"
  sp_area :: "string option"
  sp_area_id :: "string option"
  sp_canceled :: "bool option"
  sp_completed :: "bool option"
  sp_index :: "nat option"
  sp_items :: "structured_project_item list option"

datatype operation = Create | Update | Move | Delete

fun operation_string :: "operation \<Rightarrow> string" where
  "operation_string Create = ''create''"
| "operation_string Update = ''update''"
| "operation_string Move = ''move''"
| "operation_string Delete = ''delete''"

record restructure_heading =
  rh_id :: "string option"
  rh_title :: "string option"
  rh_operation :: "operation option"
  rh_index :: "nat option"
  rh_items :: "string list option"

datatype restructure_layout_item =
    RHeading restructure_heading
  | RUnsectioned "string list option"

section \<open>Payload builders\<close>

text \<open>
  A block of statements that update one object, run in the order written.
\<close>

definition statements :: "('s \<Rightarrow> 's) list \<Rightarrow> 's \<Rightarrow> 's" where
  "statements fs s = fold (\<lambda>f acc. f acc) fs s"

text \<open>
  Attribute objects are built by assigning properties one after the other.
  \<open>AList.update\<close> is property assignment: a new key is appended, an existing key
  keeps its place. \<open>assign_if\<close> is the guarded assignment \<^verbatim>\<open>if (c) o[k] = v\<close>.
\<close>

definition assign_if :: "bool \<Rightarrow> string \<Rightarrow> json \<Rightarrow> (string \<times> json) list \<Rightarrow> (string \<times> json) list" where
  "assign_if c k v kvs = (if c then AList.update k v kvs else kvs)"

definition assign_str :: "string \<Rightarrow> string option \<Rightarrow> (string \<times> json) list \<Rightarrow> (string \<times> json) list" where
  "assign_str k x kvs = (case x of Some s \<Rightarrow> assign_if (s \<noteq> []) k (JStr s) kvs | None \<Rightarrow> kvs)"

definition assign_bool :: "string \<Rightarrow> bool option \<Rightarrow> (string \<times> json) list \<Rightarrow> (string \<times> json) list" where
  "assign_bool k x kvs = (case x of Some b \<Rightarrow> AList.update k (JBool b) kvs | None \<Rightarrow> kvs)"

definition assign_num :: "string \<Rightarrow> nat option \<Rightarrow> (string \<times> json) list \<Rightarrow> (string \<times> json) list" where
  "assign_num k x kvs = (case x of Some n \<Rightarrow> AList.update k (JNum n) kvs | None \<Rightarrow> kvs)"

definition assign_tags :: "string \<Rightarrow> string list option \<Rightarrow> (string \<times> json) list \<Rightarrow> (string \<times> json) list" where
  "assign_tags k x kvs =
     (case x of Some ts \<Rightarrow> assign_if (ts \<noteq> []) k (JArr (map JStr ts)) kvs | None \<Rightarrow> kvs)"

fun buildChecklistItem :: "checklist_item_input \<Rightarrow> json" where
  "buildChecklistItem (CIString s) =
     JObj [(''type'', JStr ''checklist-item''), (''attributes'', JObj [(''title'', JStr s)])]"
| "buildChecklistItem (CIObject t c) =
     JObj [(''type'', JStr ''checklist-item''),
           (''attributes'', JObj (assign_bool ''completed'' c [(''title'', JStr t)]))]"

definition buildChecklistItems :: "checklist_item_input list \<Rightarrow> json list" where
  "buildChecklistItems items = map buildChecklistItem items"

definition buildTodo :: "structured_todo \<Rightarrow> json" where
  "buildTodo todo =
     (let attributes =
            statements
              [assign_str ''notes'' (st_notes todo),
               assign_str ''when'' (st_when todo),
               assign_str ''deadline'' (st_deadline todo),
               assign_tags ''tags'' (st_tags todo),
               assign_bool ''canceled'' (st_canceled todo),
               assign_bool ''completed'' (st_completed todo),
               assign_str ''area'' (st_area todo),
               assign_str ''area-id'' (st_area_id todo),
               assign_str ''heading-id'' (st_heading_id todo),
               assign_str ''list-id'' (st_list_id todo),
               assign_num ''index'' (st_index todo)]
              [(''title'', JStr (st_title todo))];
          checklistItems =
            (if has_length (st_checklistItems todo)
             then Some (buildChecklistItems (items_of (st_checklistItems todo)))
             else None)
      in JObj ([(''type'', JStr ''to-do''), (''attributes'', JObj attributes)] @
               (case checklistItems of Some cs \<Rightarrow> [(''items'', JArr cs)] | None \<Rightarrow> [])))"

fun buildProjectItem :: "structured_project_item \<Rightarrow> json" where
  "buildProjectItem (SPHeading item) =
     (let headingAttributes =
            statements
              [assign_str ''notes'' (sh_notes item),
               assign_num ''index'' (sh_index item)]
              [(''title'', JStr (sh_title item))]
      in JObj ([(''type'', JStr ''heading''), (''attributes'', JObj headingAttributes)] @
               (if has_length (sh_items item)
                then [(''items'', JArr (map buildTodo (items_of (sh_items item))))]
                else [])))"
| "buildProjectItem (SPTodo item) = buildTodo item"

definition buildProjectItems :: "structured_project_item list \<Rightarrow> json list" where
  "buildProjectItems items = map buildProjectItem items"

definition buildStructuredProjectPayload :: "structured_project \<Rightarrow> json list" where
  "buildStructuredProjectPayload project =
     (let attributes =
            statements
              [assign_str ''notes'' (sp_notes project),
               assign_str ''when'' (sp_when project),
               assign_str ''deadline'' (sp_deadline project),
               assign_tags ''tags'' (sp_tags project),
               assign_str ''area'' (sp_area project),
               assign_str ''area-id'' (sp_area_id project),
               assign_bool ''canceled'' (sp_canceled project),
               assign_bool ''completed'' (sp_completed project),
               assign_num ''index'' (sp_index project)]
              [(''title'', JStr (sp_title project))];
          payload = [(''type'', JStr ''project''), (''attributes'', JObj attributes)];
          payload' =
            (if has_length (sp_items project)
             then AList.update ''items'' (JArr (buildProjectItems (items_of (sp_items project)))) payload
             else payload)
      in [JObj payload'])"

subsection \<open>The restructure payload\<close>

text \<open>
  The loop state of \<^verbatim>\<open>buildRestructurePayload\<close>: the two operation lists, the two index
  counters and the list of created headings. \<^verbatim>\<open>randomUUID()\<close> is the only effect: the
  builder takes the sequence \<open>uuid\<close> of values that the successive calls return, and the
  state counts the calls made so far.
\<close>

record restructure_state =
  headingOperations :: "json list"
  todoOperations :: "json list"
  headingIndex :: nat
  todoIndex :: nat
  createdHeadings :: "(string \<times> string option) list"
  uuidCalls :: nat

text \<open>
  The expression \<^verbatim>\<open>item.operation || (providedId ? (item.title || item.index !== undefined
  ? "update" : "move") : "create")\<close>. Every value of the operation enum is a non-empty
  string, so \<^verbatim>\<open>||\<close> takes the given operation whenever there is one.
\<close>

definition heading_operation :: "restructure_heading \<Rightarrow> operation" where
  "heading_operation item =
     (case rh_operation item of
        Some operation \<Rightarrow> operation
      | None \<Rightarrow>
          (if truthy (rh_id item)
           then (if truthy (rh_title item) \<or> rh_index item \<noteq> None then Update else Move)
           else Create))"

text \<open>The entries pushed by the loop body.\<close>

definition heading_entry :: "string \<Rightarrow> string \<Rightarrow> operation \<Rightarrow> string option \<Rightarrow> nat \<Rightarrow> json" where
  "heading_entry projectId generatedId operation title idx =
     JObj [(''type'', JStr ''heading''),
           (''id'', JStr generatedId),
           (''operation'', JStr (operation_string operation)),
           (''attributes'',
              JObj (statements
                      [assign_str ''title'' title,
                       AList.update ''index'' (JNum idx)]
                      [(''project-id'', JStr projectId)]))]"

definition heading_delete_entry :: "string \<Rightarrow> json" where
  "heading_delete_entry providedId =
     JObj [(''type'', JStr ''heading''), (''id'', JStr providedId), (''operation'', JStr ''delete'')]"

definition todo_move_entry :: "string \<Rightarrow> string option \<Rightarrow> string \<Rightarrow> nat \<Rightarrow> json" where
  "todo_move_entry projectId targetHeadingId todoId idx =
     JObj [(''type'', JStr ''to-do''),
           (''id'', JStr todoId),
           (''operation'', JStr ''move''),
           (''attributes'',
              JObj ([(''list-id'', JStr projectId)] @
                    (case targetHeadingId of Some h \<Rightarrow> [(''heading-id'', JStr h)] | None \<Rightarrow> []) @
                    [(''index'', JNum idx)]))]"

text \<open>One pass of the inner \<^verbatim>\<open>item.items.forEach\<close>.\<close>

definition push_todo :: "string \<Rightarrow> string option \<Rightarrow> string \<Rightarrow> restructure_state \<Rightarrow> restructure_state" where
  "push_todo projectId targetHeadingId todoId st =
     st\<lparr>todoOperations :=
          todoOperations st @ [todo_move_entry projectId targetHeadingId todoId (todoIndex st)],
        todoIndex := todoIndex st + 1\<rparr>"

definition push_todos :: "string \<Rightarrow> string option \<Rightarrow> string list \<Rightarrow> restructure_state \<Rightarrow> restructure_state" where
  "push_todos projectId targetHeadingId todoIds st =
     fold (push_todo projectId targetHeadingId) todoIds st"

text \<open>The body of \<^verbatim>\<open>layout.forEach\<close>.\<close>

fun restructure_step ::
  "string \<Rightarrow> (nat \<Rightarrow> string) \<Rightarrow> restructure_layout_item \<Rightarrow> restructure_state \<Rightarrow> restructure_state" where
  "restructure_step projectId uuid (RHeading item) st =
     (let providedId = rh_id item;
          generatedId = (case providedId of Some i \<Rightarrow> i | None \<Rightarrow> uuid (uuidCalls st));
          st0 = (case providedId of Some i \<Rightarrow> st | None \<Rightarrow> st\<lparr>uuidCalls := uuidCalls st + 1\<rparr>);
          operation = heading_operation item;
          st1 =
            (if operation \<noteq> Delete then
               (let st' = st0\<lparr>headingOperations :=
                               headingOperations st0 @
                               [heading_entry projectId generatedId operation (rh_title item)
                                  (case rh_index item of Some i \<Rightarrow> i | None \<Rightarrow> headingIndex st0)]\<rparr>
                in if \<not> truthy providedId
                   then st'\<lparr>createdHeadings := createdHeadings st' @ [(generatedId, rh_title item)]\<rparr>
                   else st')
             else
               (case providedId of
                  Some i \<Rightarrow>
                    if i \<noteq> []
                    then st0\<lparr>headingOperations := headingOperations st0 @ [heading_delete_entry i]\<rparr>
                    else st0
                | None \<Rightarrow> st0));
          targetHeadingId =
            (if operation = Delete then None
             else Some (case providedId of Some i \<Rightarrow> i | None \<Rightarrow> generatedId));
          st2 =
            (if truthy targetHeadingId \<and> has_length (rh_items item)
             then push_todos projectId targetHeadingId (items_of (rh_items item)) st1
             else st1)
      in if operation \<noteq> Delete then st2\<lparr>headingIndex := headingIndex st2 + 1\<rparr> else st2)"
| "restructure_step projectId uuid (RUnsectioned items) st =
     (if has_length items then push_todos projectId None (items_of items) st else st)"

definition restructure_init :: restructure_state where
  "restructure_init =
     \<lparr>headingOperations = [], todoOperations = [], headingIndex = 0, todoIndex = 0,
      createdHeadings = [], uuidCalls = 0\<rparr>"

definition restructure_loop ::
  "string \<Rightarrow> (nat \<Rightarrow> string) \<Rightarrow> restructure_layout_item list \<Rightarrow> restructure_state \<Rightarrow> restructure_state" where
  "restructure_loop projectId uuid layout st = fold (restructure_step projectId uuid) layout st"

record restructure_payload =
  operations :: "json list"
  created :: "(string \<times> string option) list"

definition buildRestructurePayload ::
  "string \<Rightarrow> (nat \<Rightarrow> string) \<Rightarrow> restructure_layout_item list \<Rightarrow> restructure_payload" where
  "buildRestructurePayload projectId uuid layout =
     (let st = restructure_loop projectId uuid layout restructure_init
      in \<lparr>operations = headingOperations st @ todoOperations st,
          created = createdHeadings st\<rparr>)"

section \<open>Query strings\<close>

subsection \<open>\<^verbatim>\<open>URLSearchParams\<close>\<close>

text \<open>
  A \<^verbatim>\<open>URLSearchParams\<close> object is its list of name/value pairs. \<^verbatim>\<open>set\<close> replaces the
  value of the first pair with that name and removes the others, or appends a new pair;
  \<^verbatim>\<open>get\<close> reads the first pair with that name.
\<close>

type_synonym usp = "(string \<times> string) list"

fun usp_set :: "string \<Rightarrow> string \<Rightarrow> usp \<Rightarrow> usp" where
  "usp_set name v [] = [(name, v)]"
| "usp_set name v ((n, w) # rest) =
     (if n = name then (name, v) # filter (\<lambda>(m, _). m \<noteq> name) rest
      else (n, w) # usp_set name v rest)"

definition usp_get :: "string \<Rightarrow> usp \<Rightarrow> string option" where
  "usp_get name u = map_of u name"

text \<open>
  \<^verbatim>\<open>toString\<close> is the application/x-www-form-urlencoded serializer of the URL standard,
  on the UTF-8 bytes of names and values: a space becomes \<^verbatim>\<open>+\<close>; ASCII letters and
  digits and \<^verbatim>\<open>* - . _\<close> stay; every other byte becomes \<^verbatim>\<open>%XX\<close> with upper-case
  hexadecimal digits. Pairs are written \<^verbatim>\<open>name=value\<close> and joined with \<^verbatim>\<open>&\<close>.
\<close>

definition is_alnum :: "char \<Rightarrow> bool" where
  "is_alnum c =
     (let n = (of_char c :: nat)
      in (48 \<le> n \<and> n \<le> 57) \<or> (65 \<le> n \<and> n \<le> 90) \<or> (97 \<le> n \<and> n \<le> 122))"

definition is_form_safe :: "char \<Rightarrow> bool" where
  "is_form_safe c = (is_alnum c \<or> c \<in> set ''*-._'')"

definition hex_digit :: "nat \<Rightarrow> char" where
  "hex_digit n = (if n < 10 then char_of (48 + n) else char_of (55 + n))"

definition percent_encode_byte :: "char \<Rightarrow> string" where
  "percent_encode_byte c =
     [CHR ''%'', hex_digit ((of_char c :: nat) div 16), hex_digit ((of_char c :: nat) mod 16)]"

definition form_encode_byte :: "char \<Rightarrow> string" where
  "form_encode_byte c =
     (if c = CHR '' '' then ''+''
      else if is_form_safe c then [c]
      else percent_encode_byte c)"

definition form_encode :: "string \<Rightarrow> string" where
  "form_encode s = concat (map form_encode_byte s)"

text \<open>\<^verbatim>\<open>Array.prototype.join\<close> on an array of strings.\<close>

fun js_join :: "string \<Rightarrow> string list \<Rightarrow> string" where
  "js_join sep [] = []"
| "js_join sep [x] = x"
| "js_join sep (x # y # ys) = x @ sep @ js_join sep (y # ys)"

definition encode_pair :: "string \<times> string \<Rightarrow> string" where
  "encode_pair p = form_encode (fst p) @ ''='' @ form_encode (snd p)"

definition usp_toString :: "usp \<Rightarrow> string" where
  "usp_toString u = js_join ''&'' (map encode_pair u)"

subsection \<open>Decoding\<close>

text \<open>
  The repository only encodes; the receiving application decodes. Decoding is modelled
  to state the round trip: \<open>split_on\<close> is \<^verbatim>\<open>String.prototype.split\<close> with a one-character
  separator, and \<open>urlencoded_parse\<close> is the application/x-www-form-urlencoded parser of
  the URL standard (split at \<^verbatim>\<open>&\<close>, skip empty pieces, split each piece at its first
  \<^verbatim>\<open>=\<close>, replace \<^verbatim>\<open>+\<close> by a space, percent-decode).
\<close>

fun split_on :: "char \<Rightarrow> string \<Rightarrow> string list" where
  "split_on d [] = [[]]"
| "split_on d (c # cs) =
     (if c = d then [] # split_on d cs
      else (case split_on d cs of w # ws \<Rightarrow> (c # w) # ws | [] \<Rightarrow> [[c]]))"

definition hex_value :: "char \<Rightarrow> nat option" where
  "hex_value c =
     (let n = (of_char c :: nat)
      in if 48 \<le> n \<and> n \<le> 57 then Some (n - 48)
         else if 65 \<le> n \<and> n \<le> 70 then Some (n - 55)
         else if 97 \<le> n \<and> n \<le> 102 then Some (n - 87)
         else None)"

fun percent_decode :: "string \<Rightarrow> string" where
  "percent_decode (c # h1 # h2 # rest) =
     (case (if c = CHR ''%'' then hex_value h1 else None, hex_value h2) of
        (Some a, Some b) \<Rightarrow> char_of (16 * a + b) # percent_decode rest
      | _ \<Rightarrow> c # percent_decode (h1 # h2 # rest))"
| "percent_decode (c # rest) = c # percent_decode rest"
| "percent_decode [] = []"

definition plus_to_space :: "char \<Rightarrow> char" where
  "plus_to_space c = (if c = CHR ''+'' then CHR '' '' else c)"

definition form_decode :: "string \<Rightarrow> string" where
  "form_decode s = percent_decode (map plus_to_space s)"

definition parse_pair :: "string \<Rightarrow> string \<times> string" where
  "parse_pair s =
     (form_decode (takeWhile (\<lambda>c. c \<noteq> CHR ''='') s),
      form_decode (drop 1 (dropWhile (\<lambda>c. c \<noteq> CHR ''='') s)))"

definition urlencoded_parse :: "string \<Rightarrow> usp" where
  "urlencoded_parse input = map parse_pair (filter (\<lambda>s. s \<noteq> []) (split_on CHR ''&'' input))"

subsection \<open>\<^verbatim>\<open>String.prototype.trim\<close>\<close>

text \<open>
  The UTF-8 encodings of the code points that \<^verbatim>\<open>trim\<close> removes: the white space and line
  terminator code points of ECMAScript (TAB, LF, VT, FF, CR, SP, U+00A0, U+1680,
  U+2000 to U+200A, U+2028, U+2029, U+202F, U+205F, U+3000, U+FEFF).
\<close>

definition js_whitespace :: "string list" where
  "js_whitespace =
     [[CHR 0x09], [CHR 0x0A], [CHR 0x0B], [CHR 0x0C], [CHR 0x0D], [CHR 0x20],
      [CHR 0xC2, CHR 0xA0], [CHR 0xE1, CHR 0x9A, CHR 0x80],
      [CHR 0xE2, CHR 0x80, CHR 0x80], [CHR 0xE2, CHR 0x80, CHR 0x81],
      [CHR 0xE2, CHR 0x80, CHR 0x82], [CHR 0xE2, CHR 0x80, CHR 0x83],
      [CHR 0xE2, CHR 0x80, CHR 0x84], [CHR 0xE2, CHR 0x80, CHR 0x85],
      [CHR 0xE2, CHR 0x80, CHR 0x86], [CHR 0xE2, CHR 0x80, CHR 0x87],
      [CHR 0xE2, CHR 0x80, CHR 0x88], [CHR 0xE2, CHR 0x80, CHR 0x89],
      [CHR 0xE2, CHR 0x80, CHR 0x8A], [CHR 0xE2, CHR 0x80, CHR 0xA8],
      [CHR 0xE2, CHR 0x80, CHR 0xA9], [CHR 0xE2, CHR 0x80, CHR 0xAF],
      [CHR 0xE2, CHR 0x81, CHR 0x9F], [CHR 0xE3, CHR 0x80, CHR 0x80],
      [CHR 0xEF, CHR 0xBB, CHR 0xBF]]"

function strip_leading :: "string list \<Rightarrow> string \<Rightarrow> string" where
  "strip_leading ws s =
     (case find (\<lambda>w. w \<noteq> [] \<and> take (length w) s = w) ws of
        Some w \<Rightarrow> strip_leading ws (drop (length w) s)
      | None \<Rightarrow> s)"
  by pat_completeness auto
termination
proof (relation "measure (\<lambda>(ws, s). length s)")
  show "wf (measure (\<lambda>(ws, s). length s))" by simp
next
  fix ws :: "string list" and s w :: string
  assume "find (\<lambda>w. w \<noteq> [] \<and> take (length w) s = w) ws = Some w"
  then have "w \<noteq> []" and "take (length w) s = w"
    by (auto simp: find_Some_iff)
  then have "s \<noteq> []" by auto
  with \<open>w \<noteq> []\<close> show "((ws, drop (length w) s), (ws, s)) \<in> measure (\<lambda>(ws, s). length s)"
    by simp
qed

declare strip_leading.simps [simp del]

definition js_trim :: "string \<Rightarrow> string" where
  "js_trim s = rev (strip_leading (map rev js_whitespace) (rev (strip_leading js_whitespace s)))"

section \<open>Tools\<close>

subsection \<open>Guarded \<^verbatim>\<open>urlParams.set\<close>\<close>

text \<open>The idioms by which the handlers fill their \<^verbatim>\<open>URLSearchParams\<close>.\<close>

fun bool_toString :: "bool \<Rightarrow> string" where
  "bool_toString True = ''true''"
| "bool_toString False = ''false''"

text \<open>\<^verbatim>\<open>if (x) urlParams.set(k, x)\<close>\<close>

definition set_truthy :: "string \<Rightarrow> string option \<Rightarrow> usp \<Rightarrow> usp" where
  "set_truthy k x u = (if truthy x then usp_set k (case x of Some s \<Rightarrow> s | None \<Rightarrow> []) u else u)"

text \<open>\<^verbatim>\<open>if (x !== undefined) urlParams.set(k, x)\<close>\<close>

definition set_defined :: "string \<Rightarrow> string option \<Rightarrow> usp \<Rightarrow> usp" where
  "set_defined k x u = (case x of Some s \<Rightarrow> usp_set k s u | None \<Rightarrow> u)"

text \<open>\<^verbatim>\<open>if (x !== undefined) urlParams.set(k, x.toString())\<close>\<close>

definition set_bool :: "string \<Rightarrow> bool option \<Rightarrow> usp \<Rightarrow> usp" where
  "set_bool k x u = (case x of Some b \<Rightarrow> usp_set k (bool_toString b) u | None \<Rightarrow> u)"

text \<open>\<^verbatim>\<open>if (xs && xs.length > 0) urlParams.set(k, xs.join(sep))\<close>\<close>

definition set_joined_nonempty :: "string \<Rightarrow> string \<Rightarrow> string list option \<Rightarrow> usp \<Rightarrow> usp" where
  "set_joined_nonempty k sep xs u =
     (if has_length xs then usp_set k (js_join sep (items_of xs)) u else u)"

text \<open>\<^verbatim>\<open>if (xs) urlParams.set(k, xs.join(sep))\<close>: an array, even an empty one, is truthy.\<close>

definition set_joined_defined :: "string \<Rightarrow> string \<Rightarrow> string list option \<Rightarrow> usp \<Rightarrow> usp" where
  "set_joined_defined k sep xs u = (case xs of Some l \<Rightarrow> usp_set k (js_join sep l) u | None \<Rightarrow> u)"

subsection \<open>Tool inputs (zod)\<close>

datatype use_clipboard = ReplaceTitle | ReplaceNotes | ReplaceChecklistItems

fun use_clipboard_string :: "use_clipboard \<Rightarrow> string" where
  "use_clipboard_string ReplaceTitle = ''replace-title''"
| "use_clipboard_string ReplaceNotes = ''replace-notes''"
| "use_clipboard_string ReplaceChecklistItems = ''replace-checklist-items''"

record add_todo_args =
  at_title :: "string option"
  at_titles :: "string option"
  at_notes :: "string option"
  at_when :: "string option"
  at_deadline :: "string option"
  at_tags :: "string list option"
  at_checklist_items :: "string list option"
  at_use_clipboard :: "use_clipboard option"
  at_list_id :: "string option"
  at_list :: "string option"
  at_heading_id :: "string option"
  at_heading :: "string option"
  at_completed :: "bool option"
  at_canceled :: "bool option"
  at_show_quick_entry :: "bool option"
  at_reveal :: "bool option"
  at_creation_date :: "string option"
  at_completion_date :: "string option"

record add_project_args =
  ap_title :: string
  ap_notes :: "string option"
  ap_when :: "string option"
  ap_deadline :: "string option"
  ap_tags :: "string list option"
  ap_area_id :: "string option"
  ap_area :: "string option"
  ap_to_dos :: "string list option"
  ap_completed :: "bool option"
  ap_canceled :: "bool option"
  ap_reveal :: "bool option"
  ap_creation_date :: "string option"
  ap_completion_date :: "string option"

record create_structured_project_args =
  cs_project :: structured_project
  cs_auth_token :: "string option"
  cs_reveal :: "bool option"

record update_args =
  up_id :: string
  up_auth_token :: "string option"
  up_title :: "string option"
  up_notes :: "string option"
  up_prepend_notes :: "string option"
  up_append_notes :: "string option"
  up_when :: "string option"
  up_deadline :: "string option"
  up_tags :: "string list option"
  up_add_tags :: "string list option"
  up_checklist_items :: "string list option"
  up_prepend_checklist_items :: "string list option"
  up_append_checklist_items :: "string list option"
  up_list_id :: "string option"
  up_list :: "string option"
  up_heading_id :: "string option"
  up_heading :: "string option"
  up_completed :: "bool option"
  up_canceled :: "bool option"
  up_reveal :: "bool option"
  up_duplicate :: "bool option"
  up_creation_date :: "string option"
  up_completion_date :: "string option"

record update_project_args =
  pp_id :: string
  pp_auth_token :: "string option"
  pp_title :: "string option"
  pp_notes :: "string option"
  pp_prepend_notes :: "string option"
  pp_append_notes :: "string option"
  pp_when :: "string option"
  pp_deadline :: "string option"
  pp_tags :: "string list option"
  pp_add_tags :: "string list option"
  pp_area_id :: "string option"
  pp_area :: "string option"
  pp_completed :: "bool option"
  pp_canceled :: "bool option"
  pp_reveal :: "bool option"
  pp_duplicate :: "bool option"
  pp_creation_date :: "string option"
  pp_completion_date :: "string option"

record restructure_project_args =
  rp_project_id :: string
  rp_auth_token :: "string option"
  rp_layout :: "restructure_layout_item list"

record show_args =
  sw_id :: "string option"
  sw_query :: "string option"
  sw_filter :: "string list option"

record search_args =
  se_query :: "string option"

record evaluate_args =
  ev_id :: "string option"
  ev_url :: "string option"

record json_args =
  js_auth_token :: "string option"
  js_data :: string
  js_reveal :: "bool option"

subsection \<open>The query parameters of each tool\<close>

definition add_todo_params :: "add_todo_args \<Rightarrow> usp" where
  "add_todo_params params =
     statements
       [(if truthy (at_titles params) then set_truthy ''titles'' (at_titles params)
         else set_truthy ''title'' (at_title params)),
        set_truthy ''notes'' (at_notes params),
        set_truthy ''when'' (at_when params),
        set_truthy ''deadline'' (at_deadline params),
        set_joined_nonempty ''tags'' '','' (at_tags params),
        set_joined_nonempty ''checklist-items'' [CHR 0x0A] (at_checklist_items params),
        set_truthy ''use-clipboard'' (map_option use_clipboard_string (at_use_clipboard params)),
        set_truthy ''list-id'' (at_list_id params),
        set_truthy ''list'' (at_list params),
        set_truthy ''heading-id'' (at_heading_id params),
        set_truthy ''heading'' (at_heading params),
        set_bool ''completed'' (at_completed params),
        set_bool ''canceled'' (at_canceled params),
        set_bool ''show-quick-entry'' (at_show_quick_entry params),
        set_bool ''reveal'' (at_reveal params),
        set_truthy ''creation-date'' (at_creation_date params),
        set_truthy ''completion-date'' (at_completion_date params)]
       []"

definition add_project_params :: "add_project_args \<Rightarrow> usp" where
  "add_project_params params =
     statements
       [usp_set ''title'' (ap_title params),
        set_truthy ''notes'' (ap_notes params),
        set_truthy ''when'' (ap_when params),
        set_truthy ''deadline'' (ap_deadline params),
        set_joined_nonempty ''tags'' '','' (ap_tags params),
        set_truthy ''area-id'' (ap_area_id params),
        set_truthy ''area'' (ap_area params),
        set_joined_nonempty ''to-dos'' [CHR 0x0A] (ap_to_dos params),
        set_bool ''completed'' (ap_completed params),
        set_bool ''canceled'' (ap_canceled params),
        set_bool ''reveal'' (ap_reveal params),
        set_truthy ''creation-date'' (ap_creation_date params),
        set_truthy ''completion-date'' (ap_completion_date params)]
       []"

text \<open>
  \<^verbatim>\<open>params["auth-token"] ?? process.env.THINGS_AUTH_TOKEN ?? undefined\<close>: the parameter
  unless it is \<^verbatim>\<open>undefined\<close>, then the environment variable.
\<close>

definition nullish_or :: "'a option \<Rightarrow> 'a option \<Rightarrow> 'a option" where
  "nullish_or x y = (case x of Some v \<Rightarrow> Some v | None \<Rightarrow> y)"

text \<open>\<open>data\<close> is the value of \<^verbatim>\<open>JSON.stringify(payload)\<close>.\<close>

definition create_structured_project_params ::
  "string option \<Rightarrow> string \<Rightarrow> create_structured_project_args \<Rightarrow> usp" where
  "create_structured_project_params env data params =
     statements
       [set_truthy ''auth-token'' (nullish_or (cs_auth_token params) env),
        usp_set ''data'' data,
        set_bool ''reveal'' (cs_reveal params)]
       []"

definition update_params :: "string \<Rightarrow> update_args \<Rightarrow> usp" where
  "update_params authToken params =
     statements
       [usp_set ''id'' (up_id params),
        usp_set ''auth-token'' authToken,
        set_truthy ''title'' (up_title params),
        set_defined ''notes'' (up_notes params),
        set_truthy ''prepend-notes'' (up_prepend_notes params),
        set_truthy ''append-notes'' (up_append_notes params),
        set_defined ''when'' (up_when params),
        set_defined ''deadline'' (up_deadline params),
        set_joined_defined ''tags'' '','' (up_tags params),
        set_joined_defined ''add-tags'' '','' (up_add_tags params),
        set_joined_defined ''checklist-items'' [CHR 0x0A] (up_checklist_items params),
        set_joined_defined ''prepend-checklist-items'' [CHR 0x0A] (up_prepend_checklist_items params),
        set_joined_defined ''append-checklist-items'' [CHR 0x0A] (up_append_checklist_items params),
        set_truthy ''list-id'' (up_list_id params),
        set_truthy ''list'' (up_list params),
        set_truthy ''heading-id'' (up_heading_id params),
        set_truthy ''heading'' (up_heading params),
        set_bool ''completed'' (up_completed params),
        set_bool ''canceled'' (up_canceled params),
        set_bool ''reveal'' (up_reveal params),
        set_bool ''duplicate'' (up_duplicate params),
        set_truthy ''creation-date'' (up_creation_date params),
        set_truthy ''completion-date'' (up_completion_date params)]
       []"

definition update_project_params :: "string \<Rightarrow> update_project_args \<Rightarrow> usp" where
  "update_project_params authToken params =
     statements
       [usp_set ''id'' (pp_id params),
        usp_set ''auth-token'' authToken,
        set_truthy ''title'' (pp_title params),
        set_defined ''notes'' (pp_notes params),
        set_truthy ''prepend-notes'' (pp_prepend_notes params),
        set_truthy ''append-notes'' (pp_append_notes params),
        set_defined ''when'' (pp_when params),
        set_defined ''deadline'' (pp_deadline params),
        set_joined_defined ''tags'' '','' (pp_tags params),
        set_joined_defined ''add-tags'' '','' (pp_add_tags params),
        set_truthy ''area-id'' (pp_area_id params),
        set_truthy ''area'' (pp_area params),
        set_bool ''completed'' (pp_completed params),
        set_bool ''canceled'' (pp_canceled params),
        set_bool ''reveal'' (pp_reveal params),
        set_bool ''duplicate'' (pp_duplicate params),
        set_truthy ''creation-date'' (pp_creation_date params),
        set_truthy ''completion-date'' (pp_completion_date params)]
       []"

definition restructure_project_params :: "string \<Rightarrow> string \<Rightarrow> usp" where
  "restructure_project_params authToken data =
     statements [usp_set ''auth-token'' authToken, usp_set ''data'' data] []"

definition show_params :: "show_args \<Rightarrow> usp" where
  "show_params params =
     statements
       [(if truthy (sw_id params) then set_truthy ''id'' (sw_id params)
         else set_truthy ''query'' (sw_query params)),
        set_joined_nonempty ''filter'' '','' (sw_filter params)]
       []"

definition search_params :: "search_args \<Rightarrow> usp" where
  "search_params params = statements [set_truthy ''query'' (se_query params)] []"

definition json_params :: "string option \<Rightarrow> json_args \<Rightarrow> usp" where
  "json_params env params =
     statements
       [set_truthy ''auth-token'' (nullish_or (js_auth_token params) env),
        usp_set ''data'' (js_data params),
        set_bool ''reveal'' (js_reveal params)]
       []"

subsection \<open>The environment of a tool invocation\<close>

text \<open>
  What a handler reads from outside: the environment variable \<^verbatim>\<open>THINGS_AUTH_TOKEN\<close>, the
  outcome of the spawned \<^verbatim>\<open>open\<close> process for a URL (an \<^verbatim>\<open>error\<close> event with its message,
  or a \<^verbatim>\<open>close\<close> event with the exit code, \<open>None\<close> for \<^verbatim>\<open>null\<close>), the outcome of
  \<^verbatim>\<open>execAsync\<close> for a command line (rejection with a message, or the standard output),
  the values of \<^verbatim>\<open>randomUUID\<close>, the resolved path of the evaluate script, and the library
  functions \<^verbatim>\<open>JSON.stringify\<close>, \<^verbatim>\<open>JSON.stringify(_, null, 2)\<close> and \<^verbatim>\<open>JSON.parse\<close>
  (\<open>None\<close> when it throws). A spawned process is taken to end: a handler waits for the
  \<^verbatim>\<open>close\<close> or \<^verbatim>\<open>error\<close> event.
\<close>

datatype spawn_result = SpawnError string | SpawnClose "int option"

datatype exec_result = ExecRejected string | ExecStdout string

record world =
  env_THINGS_AUTH_TOKEN :: "string option"
  spawn_open :: "string \<Rightarrow> spawn_result"
  exec_shell :: "string \<Rightarrow> exec_result"
  randomUUID :: "nat \<Rightarrow> string"
  evaluateScriptPath :: string
  json_stringify :: "json \<Rightarrow> string"
  json_stringify_pretty :: "json \<Rightarrow> string"
  json_parse :: "string \<Rightarrow> json option"

text \<open>The external calls made by an invocation, in order.\<close>

datatype external_call = SpawnOpen string | ExecShell string

text \<open>
  The errors thrown by the handlers:
  \<^item> \<open>AuthTokenRequired\<close>: \<^verbatim>\<open>Things auth token is required. Supply `auth-token` parameter or set THINGS_AUTH_TOKEN env var.\<close>
  \<^item> \<open>NoOperationsGenerated\<close>: \<^verbatim>\<open>No operations generated from layout. Verify that headings or items are provided.\<close>
  \<^item> \<open>OpenFailed m\<close>: \<^verbatim>\<open>Failed to open Things URL: ${m}\<close>
  \<^item> \<open>OpenExited code\<close>: \<^verbatim>\<open>Failed to open Things URL: process exited with code ${code}\<close>
  \<^item> \<open>InvalidRequest\<close>: the message of the failed schema refinement
  \<^item> \<open>EvaluateFailed f\<close>: \<^verbatim>\<open>Failed to evaluate Things item: ...\<close>, wrapping the error
    caught inside the handler.
\<close>

datatype evaluate_failure =
    ExecFailed string
  | NoDataReturned
  | ParseFailed
  | ScriptReturnedError string

datatype error =
    AuthTokenRequired
  | NoOperationsGenerated
  | OpenFailed string
  | OpenExited "int option"
  | InvalidRequest string
  | EvaluateFailed evaluate_failure

datatype content =
    TextContent string
  | ResourceContent string string string

type_synonym tool_result = "(error + content) \<times> external_call list"

subsection \<open>\<^verbatim>\<open>openThingsURL\<close> and \<^verbatim>\<open>resolveAuthToken\<close>\<close>

definition openThingsURL :: "world \<Rightarrow> string \<Rightarrow> (error + unit) \<times> external_call list" where
  "openThingsURL w url =
     ((case spawn_open w url of
         SpawnError m \<Rightarrow> Inl (OpenFailed m)
       | SpawnClose code \<Rightarrow> if code = Some 0 then Inr () else Inl (OpenExited code)),
      [SpawnOpen url])"

text \<open>\<^verbatim>\<open>await openThingsURL(url); return { content: [...] }\<close>\<close>

definition open_then_return :: "world \<Rightarrow> string \<Rightarrow> content \<Rightarrow> tool_result" where
  "open_then_return w url c =
     (case openThingsURL w url of
        (Inl e, calls) \<Rightarrow> (Inl e, calls)
      | (Inr _, calls) \<Rightarrow> (Inr c, calls))"

text \<open>The condition \<^verbatim>\<open>token && token.trim().length > 0\<close>, giving the token when it holds.\<close>

definition usable_token :: "string option \<Rightarrow> string option" where
  "usable_token token =
     (case token of
        Some t \<Rightarrow> if t \<noteq> [] \<and> length (js_trim t) > 0 then Some t else None
      | None \<Rightarrow> None)"

definition resolveAuthToken :: "world \<Rightarrow> string option \<Rightarrow> error + string" where
  "resolveAuthToken w paramToken =
     (case usable_token paramToken of
        Some t \<Rightarrow> Inr t
      | None \<Rightarrow>
          (case usable_token (env_THINGS_AUTH_TOKEN w) of
             Some t \<Rightarrow> Inr t
           | None \<Rightarrow> Inl AuthTokenRequired))"

subsection \<open>The handlers\<close>

definition add_todo_tool :: "world \<Rightarrow> add_todo_args \<Rightarrow> tool_result" where
  "add_todo_tool w params =
     (let url = ''things:///add?'' @ usp_toString (add_todo_params params);
          todoName =
            (if truthy (at_titles params) then ''todos''
             else ''todo \"'' @
                  (if truthy (at_title params) then items_of (at_title params) else ''untitled'') @
                  ''\"'')
      in open_then_return w url (TextContent (todoName @ '' created successfully in Things'')))"

definition add_project_tool :: "world \<Rightarrow> add_project_args \<Rightarrow> tool_result" where
  "add_project_tool w params =
     (let url = ''things:///add-project?'' @ usp_toString (add_project_params params)
      in open_then_return w url
           (TextContent (''Project \"'' @ ap_title params @ ''\" created successfully in Things'')))"

definition create_structured_project_tool ::
  "world \<Rightarrow> create_structured_project_args \<Rightarrow> tool_result" where
  "create_structured_project_tool w params =
     (let payload = buildStructuredProjectPayload (cs_project params);
          urlParams =
            create_structured_project_params (env_THINGS_AUTH_TOKEN w)
              (json_stringify w (JArr payload)) params;
          url = ''things:///json?'' @ usp_toString urlParams
      in open_then_return w url
           (TextContent (''Structured project \"'' @ sp_title (cs_project params) @
                         ''\" created successfully in Things'')))"

definition update_tool :: "world \<Rightarrow> update_args \<Rightarrow> tool_result" where
  "update_tool w params =
     (case resolveAuthToken w (up_auth_token params) of
        Inl e \<Rightarrow> (Inl e, [])
      | Inr authToken \<Rightarrow>
          (let url = ''things:///update?'' @ usp_toString (update_params authToken params)
           in open_then_return w url (TextContent ''Todo updated successfully in Things'')))"

definition update_project_tool :: "world \<Rightarrow> update_project_args \<Rightarrow> tool_result" where
  "update_project_tool w params =
     (case resolveAuthToken w (pp_auth_token params) of
        Inl e \<Rightarrow> (Inl e, [])
      | Inr authToken \<Rightarrow>
          (let url = ''things:///update-project?'' @
                     usp_toString (update_project_params authToken params)
           in open_then_return w url (TextContent ''Project updated successfully in Things'')))"

text \<open>
  The line of the result text for a created heading:
  \<^verbatim>\<open>`\<bullet> ${heading.title ?? "(untitled)"} \<rightarrow> ${heading.id}`\<close>, the bullet being U+2022 and the
  arrow U+2192.
\<close>

definition created_heading_line :: "string \<times> string option \<Rightarrow> string" where
  "created_heading_line heading =
     [CHR 0xE2, CHR 0x80, CHR 0xA2] @ '' '' @
     (case snd heading of Some t \<Rightarrow> t | None \<Rightarrow> ''(untitled)'') @
     '' '' @ [CHR 0xE2, CHR 0x86, CHR 0x92] @ '' '' @ fst heading"

definition restructure_project_tool :: "world \<Rightarrow> restructure_project_args \<Rightarrow> tool_result" where
  "restructure_project_tool w params =
     (let payload = buildRestructurePayload (rp_project_id params) (randomUUID w) (rp_layout params)
      in if length (operations payload) = 0 then (Inl NoOperationsGenerated, [])
         else
           (case resolveAuthToken w (rp_auth_token params) of
              Inl e \<Rightarrow> (Inl e, [])
            | Inr authToken \<Rightarrow>
                (let urlParams =
                       restructure_project_params authToken
                         (json_stringify w (JArr (operations payload)));
                     url = ''things:///json?'' @ usp_toString urlParams;
                     resultTextLines =
                       [''Project '' @ rp_project_id params @ '' restructured successfully in Things''] @
                       (if created payload \<noteq> []
                        then ''New headings:'' # map created_heading_line (created payload)
                        else [])
                 in open_then_return w url (TextContent (js_join [CHR 0x0A] resultTextLines)))))"

definition show_tool :: "world \<Rightarrow> show_args \<Rightarrow> tool_result" where
  "show_tool w params =
     (let url = ''things:///show?'' @ usp_toString (show_params params);
          target =
            (if truthy (sw_id params) then items_of (sw_id params)
             else if truthy (sw_query params) then items_of (sw_query params)
             else ''Things'')
      in open_then_return w url (TextContent (''Opened '' @ target @ '' in Things'')))"

definition search_tool :: "world \<Rightarrow> search_args \<Rightarrow> tool_result" where
  "search_tool w params =
     (let url = ''things:///search?'' @ usp_toString (search_params params)
      in open_then_return w url
           (TextContent
              (if truthy (se_query params)
               then ''Searching for \"'' @ items_of (se_query params) @ ''\" in Things''
               else ''Opened search in Things'')))"

text \<open>\<^verbatim>\<open>encodeURIComponent\<close>: ASCII letters, digits and \<^verbatim>\<open>- _ . ! ~ * ' ( )\<close> stay.\<close>

definition encodeURIComponent :: "string \<Rightarrow> string" where
  "encodeURIComponent s =
     concat (map (\<lambda>c. if is_alnum c \<or> c \<in> set ''-_.!~*'' \<or> c \<in> set [CHR 0x27, CHR ''('', CHR '')'']
                       then [c] else percent_encode_byte c) s)"

text \<open>
  What the evaluate handler does with the standard output of the script; every error
  thrown here is caught and wrapped by the handler.
\<close>

definition evaluate_output :: "world \<Rightarrow> string option \<Rightarrow> string \<Rightarrow> evaluate_failure + content" where
  "evaluate_output w target stdout =
     (let trimmed = js_trim stdout
      in if trimmed = [] then Inl NoDataReturned
         else
           (case json_parse w trimmed of
              None \<Rightarrow> Inl ParseFailed
            | Some parsed \<Rightarrow>
                (case jfield ''error'' parsed of
                   Some (JStr _) \<Rightarrow>
                     Inl (ScriptReturnedError
                            (case jfield ''message'' parsed of
                               Some (JStr m) \<Rightarrow> m
                             | _ \<Rightarrow> json_stringify w parsed))
                 | _ \<Rightarrow>
                     Inr (ResourceContent (json_stringify_pretty w parsed)
                            (''things-evaluate://'' @
                             encodeURIComponent (case target of Some t \<Rightarrow> t | None \<Rightarrow> []))
                            ''application/json''))))"

definition evaluate_tool :: "world \<Rightarrow> evaluate_args \<Rightarrow> tool_result" where
  "evaluate_tool w params =
     (let hasId = truthy (ev_id params);
          hasUrl = truthy (ev_url params)
      in if \<not> ((hasId \<or> hasUrl) \<and> \<not> (hasId \<and> hasUrl))
         then (Inl (InvalidRequest ''Provide either id or url, but not both''), [])
         else
           (let target = nullish_or (ev_id params) (ev_url params);
                command =
                  ''/usr/bin/osascript -l JavaScript '' @
                  json_stringify w (JStr (evaluateScriptPath w)) @ '' '' @
                  (case target of Some t \<Rightarrow> json_stringify w (JStr t) | None \<Rightarrow> ''undefined'')
            in (case exec_shell w command of
                  ExecRejected m \<Rightarrow> (Inl (EvaluateFailed (ExecFailed m)), [ExecShell command])
                | ExecStdout stdout \<Rightarrow>
                    (case evaluate_output w target stdout of
                       Inl f \<Rightarrow> (Inl (EvaluateFailed f), [ExecShell command])
                     | Inr c \<Rightarrow> (Inr c, [ExecShell command])))))"

definition version_tool :: "world \<Rightarrow> tool_result" where
  "version_tool w =
     open_then_return w ''things:///version'' (TextContent ''Retrieved Things version information'')"

definition json_tool :: "world \<Rightarrow> json_args \<Rightarrow> tool_result" where
  "json_tool w params =
     (let url = ''things:///json?'' @ usp_toString (json_params (env_THINGS_AUTH_TOKEN w) params)
      in open_then_return w url (TextContent ''JSON data processed successfully in Things''))"

text \<open>The tools registered with the server.\<close>

datatype tool_call =
    AddTodo add_todo_args
  | AddProject add_project_args
  | CreateStructuredProject create_structured_project_args
  | UpdateTodo update_args
  | UpdateProject update_project_args
  | RestructureProject restructure_project_args
  | ShowItem show_args
  | Search search_args
  | Evaluate evaluate_args
  | Version
  | Json json_args

fun invoke :: "world \<Rightarrow> tool_call \<Rightarrow> tool_result" where
  "invoke w (AddTodo a) = add_todo_tool w a"
| "invoke w (AddProject a) = add_project_tool w a"
| "invoke w (CreateStructuredProject a) = create_structured_project_tool w a"
| "invoke w (UpdateTodo a) = update_tool w a"
| "invoke w (UpdateProject a) = update_project_tool w a"
| "invoke w (RestructureProject a) = restructure_project_tool w a"
| "invoke w (ShowItem a) = show_tool w a"
| "invoke w (Search a) = search_tool w a"
| "invoke w (Evaluate a) = evaluate_tool w a"
| "invoke w Version = version_tool w"
| "invoke w (Json a) = json_tool w a"

section \<open>Example inputs\<close>

text \<open>
  Inputs used where a property is evaluated at a concrete call: \<^verbatim>\<open>add-todo\<close> called with
  no field, \<^verbatim>\<open>update\<close> and \<^verbatim>\<open>update-project\<close> called with the id only, and an environment in which every
  spawned process succeeds.
\<close>

definition add_todo_none :: add_todo_args where
  "add_todo_none =
     \<lparr>at_title = None, at_titles = None, at_notes = None, at_when = None, at_deadline = None,
      at_tags = None, at_checklist_items = None, at_use_clipboard = None, at_list_id = None,
      at_list = None, at_heading_id = None, at_heading = None, at_completed = None,
      at_canceled = None, at_show_quick_entry = None, at_reveal = None,
      at_creation_date = None, at_completion_date = None\<rparr>"

definition update_only_id :: "string \<Rightarrow> update_args" where
  "update_only_id i =
     \<lparr>up_id = i, up_auth_token = None, up_title = None, up_notes = None,
      up_prepend_notes = None, up_append_notes = None, up_when = None, up_deadline = None,
      up_tags = None, up_add_tags = None, up_checklist_items = None,
      up_prepend_checklist_items = None, up_append_checklist_items = None, up_list_id = None,
      up_list = None, up_heading_id = None, up_heading = None, up_completed = None,
      up_canceled = None, up_reveal = None, up_duplicate = None, up_creation_date = None,
      up_completion_date = None\<rparr>"

definition update_project_only_id :: "string \<Rightarrow> update_project_args" where
  "update_project_only_id i =
     \<lparr>pp_id = i, pp_auth_token = None, pp_title = None, pp_notes = None,
      pp_prepend_notes = None, pp_append_notes = None, pp_when = None, pp_deadline = None,
      pp_tags = None, pp_add_tags = None, pp_area_id = None, pp_area = None,
      pp_completed = None, pp_canceled = None, pp_reveal = None, pp_duplicate = None,
      pp_creation_date = None, pp_completion_date = None\<rparr>"

definition quiet_world :: "string option \<Rightarrow> world" where
  "quiet_world env =
     \<lparr>env_THINGS_AUTH_TOKEN = env,
      spawn_open = (\<lambda>url. SpawnClose (Some 0)),
      exec_shell = (\<lambda>command. ExecStdout ''{}''),
      randomUUID = (\<lambda>n. ''uuid''),
      evaluateScriptPath = ''/scripts/things-evaluate-url.jxa'',
      json_stringify = (\<lambda>v. ''[]''),
      json_stringify_pretty = (\<lambda>v. ''[]''),
      json_parse = (\<lambda>s. Some (JObj []))\<rparr>"



section \<open>Observations on payload entries\<close>

text \<open>
  The properties below are stated through these readers of an emitted entry and these
  classifications of a layout block. They are not part of the program.
\<close>

definition is_heading_op :: "json \<Rightarrow> bool" where
  "is_heading_op e = (jfield ''type'' e = Some (JStr ''heading''))"

definition is_todo_move :: "json \<Rightarrow> bool" where
  "is_todo_move e =
     (jfield ''type'' e = Some (JStr ''to-do'') \<and> jfield ''operation'' e = Some (JStr ''move''))"


definition entry_index :: "json \<Rightarrow> json option" where
  "entry_index e = (case jfield ''attributes'' e of Some a \<Rightarrow> jfield ''index'' a | None \<Rightarrow> None)"

definition entry_id :: "json \<Rightarrow> json option" where
  "entry_id e = jfield ''id'' e"

text \<open>The heading operations that one pass of the loop body pushes.\<close>

definition step_heading_entries ::
  "string \<Rightarrow> (nat \<Rightarrow> string) \<Rightarrow> restructure_layout_item \<Rightarrow> restructure_state \<Rightarrow> json list" where
  "step_heading_entries p uuid item st =
     drop (length (headingOperations st)) (headingOperations (restructure_step p uuid item st))"

text \<open>
  The to-do ids that one pass moves, when \<open>n\<close> calls of \<^verbatim>\<open>randomUUID\<close> were made before it:
  those of an unsectioned block, and those of a heading that is not deleted and whose
  target id is a non-empty string.
\<close>

definition step_todo_ids :: "(nat \<Rightarrow> string) \<Rightarrow> nat \<Rightarrow> restructure_layout_item \<Rightarrow> string list" where
  "step_todo_ids uuid n item =
     (case item of
        RUnsectioned items \<Rightarrow> items_of items
      | RHeading h \<Rightarrow>
          if heading_operation h \<noteq> Delete \<and>
             truthy (Some (case rh_id h of Some i \<Rightarrow> i | None \<Rightarrow> uuid n))
          then items_of (rh_items h) else [])"

text \<open>The same when every generated identifier is non-empty.\<close>

fun block_todo_ids :: "restructure_layout_item \<Rightarrow> string list" where
  "block_todo_ids (RHeading h) =
     (if heading_operation h \<noteq> Delete \<and> rh_id h \<noteq> Some [] then items_of (rh_items h) else [])"
| "block_todo_ids (RUnsectioned items) = items_of items"




text \<open>External calls that run a subprocess through the shell, and the tool that makes them.\<close>

definition is_exec_call :: "external_call \<Rightarrow> bool" where
  "is_exec_call c = (case c of ExecShell _ \<Rightarrow> True | SpawnOpen _ \<Rightarrow> False)"

definition is_evaluate :: "tool_call \<Rightarrow> bool" where
  "is_evaluate call = (case call of Evaluate _ \<Rightarrow> True | _ \<Rightarrow> False)"

section \<open>The restructure loop\<close>

subsection \<open>The inner loop over to-do ids\<close>

lemma push_todos_todoOperations:
  "todoOperations (push_todos p t ids st) =
     todoOperations st @ map (\<lambda>(k, i). todo_move_entry p t i k) (enumerate (todoIndex st) ids)"
  unfolding push_todos_def
  by (induction ids arbitrary: st) (simp_all add: push_todo_def)

lemma push_todos_todoIndex:
  "todoIndex (push_todos p t ids st) = todoIndex st + length ids"
  unfolding push_todos_def
  by (induction ids arbitrary: st) (simp_all add: push_todo_def)

lemma push_todos_other:
  "headingOperations (push_todos p t ids st) = headingOperations st"
  "headingIndex (push_todos p t ids st) = headingIndex st"
  "createdHeadings (push_todos p t ids st) = createdHeadings st"
  "uuidCalls (push_todos p t ids st) = uuidCalls st"
  unfolding push_todos_def
  by (induction ids arbitrary: st) (simp_all add: push_todo_def)

lemma push_todos_eq:
  "push_todos p t ids st =
     st\<lparr>todoOperations :=
          todoOperations st @ map (\<lambda>(k, i). todo_move_entry p t i k) (enumerate (todoIndex st) ids),
        todoIndex := todoIndex st + length ids\<rparr>"
  unfolding push_todos_def
  by (induction ids arbitrary: st) (simp_all add: push_todo_def)

subsection \<open>Emitted entries\<close>

lemma is_todo_move_entry [simp]: "is_todo_move (todo_move_entry p t i k)"
  by (simp add: is_todo_move_def todo_move_entry_def)

lemma is_heading_op_entry [simp]:
  "is_heading_op (heading_entry p g operation ti k)" "is_heading_op (heading_delete_entry i)"
  by (simp_all add: is_heading_op_def heading_entry_def heading_delete_entry_def)

lemma entry_index_todo [simp]: "entry_index (todo_move_entry p t i k) = Some (JNum k)"
  by (cases t) (simp_all add: entry_index_def todo_move_entry_def)

lemma heading_not_todo: "is_heading_op e \<Longrightarrow> \<not> is_todo_move e"
  by (simp add: is_heading_op_def is_todo_move_def)

lemma todo_not_heading: "is_todo_move e \<Longrightarrow> \<not> is_heading_op e"
  by (simp add: is_heading_op_def is_todo_move_def)


lemma heading_entry_operation:
  "jfield ''operation'' (heading_entry p g operation t k) = Some (JStr (operation_string operation))"
  by (simp add: heading_entry_def)

lemma operation_string_delete:
  "operation_string operation = ''delete'' \<longleftrightarrow> operation = Delete"
  "''delete'' = operation_string operation \<longleftrightarrow> operation = Delete"
  by (cases operation; simp)+

lemma moves_index:
  "map entry_index (map (\<lambda>(k, i). todo_move_entry p t i k) (enumerate n ids)) =
     map (\<lambda>k. Some (JNum k)) [n ..< n + length ids]"
proof (induction ids arbitrary: n)
  case Nil
  then show ?case by simp
next
  case (Cons a ids)
  have "[n ..< n + length (a # ids)] = n # [Suc n ..< Suc n + length ids]"
    using upt_conv_Cons[of n "n + length (a # ids)"] by (simp del: upt_Suc)
  then show ?case using Cons.IH[of "Suc n"] by (simp del: upt_Suc)
qed

lemma moves_id:
  "map entry_id (map (\<lambda>(k, i). todo_move_entry p t i k) (enumerate n ids)) =
     map (\<lambda>i. Some (JStr i)) ids"
  by (induction ids arbitrary: n) (simp_all add: entry_id_def todo_move_entry_def)

lemma moves_operation:
  "map (jfield ''operation'') (map (\<lambda>(k, i). todo_move_entry p t i k) (enumerate n ids)) =
     replicate (length ids) (Some (JStr ''move''))"
  by (induction ids arbitrary: n) (simp_all add: todo_move_entry_def)

lemma moves_not_heading:
  "filter is_heading_op (map (\<lambda>(k, i). todo_move_entry p t i k) (enumerate n ids)) = []"
  by (induction ids arbitrary: n) (simp_all add: todo_not_heading)

lemma has_length_items_of: "\<not> has_length xs \<Longrightarrow> items_of xs = []"
  by (cases xs) auto

subsection \<open>One pass of the loop body\<close>

lemma step_todoOperations:
  "\<exists>t. todoOperations (restructure_step p uuid item st) =
     todoOperations st @
       map (\<lambda>(k, i). todo_move_entry p t i k)
         (enumerate (todoIndex st) (step_todo_ids uuid (uuidCalls st) item))"
proof (cases item)
  case (RHeading h)
  then show ?thesis
    by (cases "rh_id h")
      (auto simp: Let_def step_todo_ids_def push_todos_todoOperations push_todos_todoIndex
        push_todos_other has_length_items_of)
next
  case (RUnsectioned items)
  then show ?thesis
    by (auto simp: step_todo_ids_def push_todos_todoOperations has_length_items_of)
qed

lemma step_todoIndex:
  "todoIndex (restructure_step p uuid item st) =
     todoIndex st + length (step_todo_ids uuid (uuidCalls st) item)"
proof (cases item)
  case (RHeading h)
  then show ?thesis
    by (cases "rh_id h")
      (auto simp: Let_def step_todo_ids_def push_todos_todoOperations push_todos_todoIndex
        push_todos_other has_length_items_of)
next
  case (RUnsectioned items)
  then show ?thesis
    by (auto simp: step_todo_ids_def push_todos_todoIndex has_length_items_of)
qed

lemma step_headingOperations:
  "headingOperations (restructure_step p uuid (RHeading h) st) =
     headingOperations st @
       (if heading_operation h \<noteq> Delete
        then [heading_entry p (case rh_id h of Some i \<Rightarrow> i | None \<Rightarrow> uuid (uuidCalls st))
                (heading_operation h) (rh_title h)
                (case rh_index h of Some i \<Rightarrow> i | None \<Rightarrow> headingIndex st)]
        else if truthy (rh_id h) then [heading_delete_entry (case rh_id h of Some i \<Rightarrow> i | None \<Rightarrow> [])]
        else [])"
  by (cases "rh_id h") (auto simp: Let_def push_todos_other split: option.splits)

lemma step_headingOperations_unsectioned:
  "headingOperations (restructure_step p uuid (RUnsectioned items) st) = headingOperations st"
  by (simp add: push_todos_other)



lemma step_unsectioned_eq:
  "restructure_step p uuid (RUnsectioned items) st =
     st\<lparr>todoOperations :=
          todoOperations st @
            map (\<lambda>(k, i). todo_move_entry p None i k) (enumerate (todoIndex st) (items_of items)),
        todoIndex := todoIndex st + length (items_of items)\<rparr>"
  by (cases items) (auto simp: restructure_step.simps push_todos_eq)

lemma step_delete_without_id:
  assumes "rh_operation h = Some Delete" "\<not> truthy (rh_id h)"
  shows "restructure_step p uuid (RHeading h) st =
           st\<lparr>uuidCalls := uuidCalls st + (if rh_id h = None then 1 else 0)\<rparr>"
proof -
  have op: "heading_operation h = Delete"
    using assms(1) by (simp add: heading_operation_def)
  show ?thesis
    using assms(2) op by (cases "rh_id h") (simp_all add: restructure_step.simps Let_def)
qed

declare restructure_step.simps [simp del]


lemma step_heading_extends:
  "\<exists>zs. headingOperations (restructure_step p uuid item st) = headingOperations st @ zs \<and>
        list_all is_heading_op zs"
proof (cases item)
  case (RHeading h)
  then show ?thesis by (simp add: step_headingOperations)
next
  case (RUnsectioned items)
  then show ?thesis by (simp add: step_headingOperations_unsectioned)
qed

lemma step_heading_entries_heading:
  "step_heading_entries p uuid (RHeading h) st =
       (if heading_operation h \<noteq> Delete
        then [heading_entry p (case rh_id h of Some i \<Rightarrow> i | None \<Rightarrow> uuid (uuidCalls st))
                (heading_operation h) (rh_title h)
                (case rh_index h of Some i \<Rightarrow> i | None \<Rightarrow> headingIndex st)]
        else if truthy (rh_id h) then [heading_delete_entry (case rh_id h of Some i \<Rightarrow> i | None \<Rightarrow> [])]
        else [])"
  by (simp add: step_heading_entries_def step_headingOperations)

lemma step_heading_entries_unsectioned:
  "step_heading_entries p uuid (RUnsectioned items) st = []"
  by (simp add: step_heading_entries_def step_headingOperations_unsectioned)

lemma step_todo_extends:
  "\<exists>zs. todoOperations (restructure_step p uuid item st) = todoOperations st @ zs \<and>
        list_all is_todo_move zs \<and>
        map entry_index zs = map (\<lambda>k. Some (JNum k)) [todoIndex st ..< todoIndex st + length zs] \<and>
        map entry_id zs = map (\<lambda>i. Some (JStr i)) (step_todo_ids uuid (uuidCalls st) item) \<and>
        todoIndex (restructure_step p uuid item st) = todoIndex st + length zs"
proof -
  obtain t where t: "todoOperations (restructure_step p uuid item st) =
     todoOperations st @
       map (\<lambda>(k, i). todo_move_entry p t i k)
         (enumerate (todoIndex st) (step_todo_ids uuid (uuidCalls st) item))"
    using step_todoOperations by blast
  let ?ids = "step_todo_ids uuid (uuidCalls st) item"
  let ?zs = "map (\<lambda>(k, i). todo_move_entry p t i k) (enumerate (todoIndex st) ?ids)"
  have 1: "list_all is_todo_move ?zs"
    by (simp add: list_all_iff split_beta)
  have 2: "map entry_index ?zs = map (\<lambda>k. Some (JNum k)) [todoIndex st ..< todoIndex st + length ?zs]"
    by (simp add: enumerate_eq_zip split_beta comp_def map_fst_zip_take
        flip: map_map[of "\<lambda>k. Some (JNum k)" fst, unfolded comp_def])
  have 3: "map entry_id ?zs = map (\<lambda>i. Some (JStr i)) ?ids"
    by (simp add: enumerate_eq_zip split_beta comp_def entry_id_def todo_move_entry_def
        flip: map_map[of "\<lambda>i. Some (JStr i)" snd, unfolded comp_def])
  show ?thesis
    using t 1 2 3 step_todoIndex[of p uuid item st] by (intro exI[of _ ?zs]) simp
qed

lemma step_todo_ids_block:
  "\<forall>n. uuid n \<noteq> [] \<Longrightarrow> step_todo_ids uuid n item = block_todo_ids item"
  by (cases item) (auto simp: step_todo_ids_def split: option.splits)


subsection \<open>The whole loop\<close>

lemma loop_Nil [simp]: "restructure_loop p uuid [] st = st"
  by (simp add: restructure_loop_def)

lemma loop_Cons [simp]:
  "restructure_loop p uuid (item # rest) st =
     restructure_loop p uuid rest (restructure_step p uuid item st)"
  by (simp add: restructure_loop_def)

lemma loop_append:
  "restructure_loop p uuid (xs @ ys) st = restructure_loop p uuid ys (restructure_loop p uuid xs st)"
  by (simp add: restructure_loop_def)

lemma init_fields [simp]:
  "headingOperations restructure_init = []" "todoOperations restructure_init = []"
  "headingIndex restructure_init = 0" "todoIndex restructure_init = 0"
  "createdHeadings restructure_init = []" "uuidCalls restructure_init = 0"
  by (simp_all add: restructure_init_def)




lemma loop_heading_extends:
  "\<exists>zs. headingOperations (restructure_loop p uuid xs st) = headingOperations st @ zs \<and>
        list_all is_heading_op zs"
proof (induction xs arbitrary: st)
  case Nil
  then show ?case by simp
next
  case (Cons item rest)
  obtain zs where zs: "headingOperations (restructure_step p uuid item st) = headingOperations st @ zs"
      "list_all is_heading_op zs"
    using step_heading_extends by blast
  obtain ws where ws: "headingOperations (restructure_loop p uuid rest (restructure_step p uuid item st)) =
      headingOperations (restructure_step p uuid item st) @ ws" "list_all is_heading_op ws"
    using Cons.IH by blast
  show ?case
    using zs ws by simp
qed

lemma loop_todo_extends:
  "\<exists>zs. todoOperations (restructure_loop p uuid xs st) = todoOperations st @ zs \<and>
        list_all is_todo_move zs \<and>
        map entry_index zs = map (\<lambda>k. Some (JNum k)) [todoIndex st ..< todoIndex st + length zs] \<and>
        ((\<forall>n. uuid n \<noteq> []) \<longrightarrow>
           map entry_id zs = map (\<lambda>i. Some (JStr i)) (concat (map block_todo_ids xs))) \<and>
        todoIndex (restructure_loop p uuid xs st) = todoIndex st + length zs"
proof (induction xs arbitrary: st)
  case Nil
  then show ?case by simp
next
  case (Cons item rest)
  let ?st = "restructure_step p uuid item st"
  obtain zs where zs: "todoOperations ?st = todoOperations st @ zs"
      "list_all is_todo_move zs"
      "map entry_index zs = map (\<lambda>k. Some (JNum k)) [todoIndex st ..< todoIndex st + length zs]"
      "map entry_id zs = map (\<lambda>i. Some (JStr i)) (step_todo_ids uuid (uuidCalls st) item)"
      "todoIndex ?st = todoIndex st + length zs"
    using step_todo_extends[of p uuid item st] by blast
  obtain ws where ws: "todoOperations (restructure_loop p uuid rest ?st) = todoOperations ?st @ ws"
      "list_all is_todo_move ws"
      "map entry_index ws = map (\<lambda>k. Some (JNum k)) [todoIndex ?st ..< todoIndex ?st + length ws]"
      "(\<forall>n. uuid n \<noteq> []) \<longrightarrow>
         map entry_id ws = map (\<lambda>i. Some (JStr i)) (concat (map block_todo_ids rest))"
      "todoIndex (restructure_loop p uuid rest ?st) = todoIndex ?st + length ws"
    using Cons.IH[of ?st] by blast
  have idx: "map entry_index (zs @ ws) =
      map (\<lambda>k. Some (JNum k)) [todoIndex st ..< todoIndex st + length (zs @ ws)]"
  proof -
    have "[todoIndex st ..< todoIndex st + length (zs @ ws)] =
        [todoIndex st ..< todoIndex st + length zs] @
        [todoIndex st + length zs ..< todoIndex st + length zs + length ws]"
      using upt_add_eq_append[of "todoIndex st" "todoIndex st + length zs" "length ws"]
      by (simp add: add.assoc)
    then show ?thesis using zs(3) ws(3) zs(5) by simp
  qed
  have ids: "(\<forall>n. uuid n \<noteq> []) \<longrightarrow>
      map entry_id (zs @ ws) = map (\<lambda>i. Some (JStr i)) (concat (map block_todo_ids (item # rest)))"
    using zs(4) ws(4) by (simp add: step_todo_ids_block)
  show ?case
    using zs(1,2,5) ws(1,2,5) idx ids by (intro exI[of _ "zs @ ws"]) simp
qed

lemma loop_unsectioned_eq:
  "restructure_loop p uuid (map RUnsectioned blocks) st =
     st\<lparr>todoOperations :=
          todoOperations st @
            map (\<lambda>(k, i). todo_move_entry p None i k)
              (enumerate (todoIndex st) (concat (map items_of blocks))),
        todoIndex := todoIndex st + length (concat (map items_of blocks))\<rparr>"
proof (induction blocks arbitrary: st)
  case Nil
  then show ?case by simp
next
  case (Cons b bs)
  show ?case
    by (simp add: Cons.IH step_unsectioned_eq enumerate_append_eq)
qed



lemma filter_split_append:
  assumes "list_all P hs" "list_all Q ts" "\<And>e. P e \<Longrightarrow> \<not> Q e"
  shows "filter P (hs @ ts) = hs" "filter Q (hs @ ts) = ts"
proof -
  have "filter P hs = hs" "filter Q ts = ts"
    using assms(1,2) by (simp_all add: list_all_iff)
  moreover have "filter P ts = []" "filter Q hs = []"
    using assms by (auto simp: list_all_iff filter_empty_conv)
  ultimately show "filter P (hs @ ts) = hs" "filter Q (hs @ ts) = ts"
    by simp_all
qed

lemma payload_split:
  "\<exists>hs ts. operations (buildRestructurePayload p uuid layout) = hs @ ts \<and>
     hs = headingOperations (restructure_loop p uuid layout restructure_init) \<and>
     list_all is_heading_op hs \<and> list_all is_todo_move ts \<and>
     map entry_index ts = map (\<lambda>k. Some (JNum k)) [0 ..< length ts] \<and>
     ((\<forall>n. uuid n \<noteq> []) \<longrightarrow>
        map entry_id ts = map (\<lambda>i. Some (JStr i)) (concat (map block_todo_ids layout)))"
proof -
  obtain hs where hs: "headingOperations (restructure_loop p uuid layout restructure_init) = hs"
      "list_all is_heading_op hs"
    using loop_heading_extends[of p uuid layout restructure_init] by auto
  obtain ts where ts: "todoOperations (restructure_loop p uuid layout restructure_init) = ts"
      "list_all is_todo_move ts"
      "map entry_index ts = map (\<lambda>k. Some (JNum k)) [0 ..< length ts]"
      "(\<forall>n. uuid n \<noteq> []) \<longrightarrow>
         map entry_id ts = map (\<lambda>i. Some (JStr i)) (concat (map block_todo_ids layout))"
    using loop_todo_extends[of p uuid layout restructure_init] by auto
  show ?thesis
    using hs ts by (simp add: buildRestructurePayload_def Let_def)
qed






subsection \<open>The structured project payload\<close>




section \<open>Properties of the payload builders\<close>




text \<open>
  C2, as amended: for a heading whose operation is not given, the operation of the pushed
  entry is \<^verbatim>\<open>create\<close> when the id is missing or the empty string; otherwise it is
  \<^verbatim>\<open>update\<close> when the title is a non-empty string or an index is given, and
  \<^verbatim>\<open>move\<close> when neither is. A pushed entry has operation \<^verbatim>\<open>delete\<close> only
  when the input gives that operation. The statement holds from every loop state, hence
  at every position of every layout.
\<close>

theorem heading_operation_inferred:
  "(rh_operation h = None \<longrightarrow>
      map (jfield ''operation'') (step_heading_entries p uuid (RHeading h) st) =
        [Some (JStr (if \<not> truthy (rh_id h) then ''create''
                     else if truthy (rh_title h) \<or> rh_index h \<noteq> None then ''update''
                     else ''move''))]) \<and>
   (Some (JStr ''delete'') \<in> set (map (jfield ''operation'') (step_heading_entries p uuid (RHeading h) st))
      \<longrightarrow> rh_operation h = Some Delete)"
proof -
  have a: "rh_operation h = None \<Longrightarrow>
      map (jfield ''operation'') (step_heading_entries p uuid (RHeading h) st) =
        [Some (JStr (if \<not> truthy (rh_id h) then ''create''
                     else if truthy (rh_title h) \<or> rh_index h \<noteq> None then ''update''
                     else ''move''))]"
    by (simp add: step_heading_entries_heading heading_operation_def heading_entry_operation)
  have b: "Some (JStr ''delete'') \<in> set (map (jfield ''operation'') (step_heading_entries p uuid (RHeading h) st))
      \<Longrightarrow> rh_operation h = Some Delete"
    by (cases "rh_operation h")
      (auto simp: step_heading_entries_heading heading_operation_def heading_entry_operation
        operation_string_delete split: if_splits)
  show ?thesis using a b by blast
qed

theorem heading_operation_inferred_witness:
  "rh_operation \<lparr>rh_id = Some ''H1'', rh_title = Some ''Design'', rh_operation = None,
       rh_index = None, rh_items = None\<rparr> = None \<and>
   map (jfield ''operation'')
     (step_heading_entries ''P'' (\<lambda>n. ''uuid'')
        (RHeading \<lparr>rh_id = Some ''H1'', rh_title = Some ''Design'', rh_operation = None,
           rh_index = None, rh_items = None\<rparr>) restructure_init) = [Some (JStr ''update'')] \<and>
   Some (JStr ''delete'') \<in> set (map (jfield ''operation'')
     (step_heading_entries ''P'' (\<lambda>n. ''uuid'')
        (RHeading \<lparr>rh_id = Some ''H1'', rh_title = None, rh_operation = Some Delete,
           rh_index = None, rh_items = None\<rparr>) restructure_init)) \<and>
   rh_operation \<lparr>rh_id = Some ''H1'', rh_title = None, rh_operation = Some Delete,
           rh_index = None, rh_items = None\<rparr> = Some Delete"
  using heading_operation_inferred[of
      "\<lparr>rh_id = Some ''H1'', rh_title = Some ''Design'', rh_operation = None,
        rh_index = None, rh_items = None\<rparr>" "''P''" "\<lambda>n. ''uuid''" restructure_init]
    heading_operation_inferred[of
      "\<lparr>rh_id = Some ''H1'', rh_title = None, rh_operation = Some Delete,
        rh_index = None, rh_items = None\<rparr>" "''P''" "\<lambda>n. ''uuid''" restructure_init]
  by (simp add: step_heading_entries_def restructure_step.simps heading_operation_def
      heading_delete_entry_def restructure_init_def)

text \<open>
  C2, as stated, fails on empty strings: a heading with an id and the title \<^verbatim>\<open>""\<close>
  (present, but falsy) is given \<^verbatim>\<open>move\<close>, not \<^verbatim>\<open>update\<close>; and a heading whose id is
  \<^verbatim>\<open>""\<close> is given \<^verbatim>\<open>create\<close>.
\<close>

theorem heading_operation_empty_title_counterexample:
  "rh_title \<lparr>rh_id = Some ''H1'', rh_title = Some '''', rh_operation = None,
       rh_index = None, rh_items = None\<rparr> \<noteq> None \<and>
   map (jfield ''operation'')
     (operations (buildRestructurePayload ''P'' (\<lambda>n. ''uuid'')
        [RHeading \<lparr>rh_id = Some ''H1'', rh_title = Some '''', rh_operation = None,
           rh_index = None, rh_items = None\<rparr>])) = [Some (JStr ''move'')] \<and>
   rh_id \<lparr>rh_id = Some '''', rh_title = None, rh_operation = None,
       rh_index = None, rh_items = None\<rparr> \<noteq> None \<and>
   map (jfield ''operation'')
     (operations (buildRestructurePayload ''P'' (\<lambda>n. ''uuid'')
        [RHeading \<lparr>rh_id = Some '''', rh_title = None, rh_operation = None,
           rh_index = None, rh_items = None\<rparr>])) = [Some (JStr ''create'')]"
  by (simp add: buildRestructurePayload_def restructure_step.simps heading_operation_def
      heading_entry_def restructure_init_def statements_def assign_str_def assign_if_def)

text \<open>
  C3: a layout of unsectioned blocks only yields no heading operation and exactly one
  \<^verbatim>\<open>move\<close> entry per listed to-do id, in layout order, without a heading id, with the
  indices 0, 1, 2, ...
\<close>

theorem restructure_unsectioned_only:
  "operations (buildRestructurePayload p uuid (map RUnsectioned blocks)) =
     map (\<lambda>(k, i). todo_move_entry p None i k) (enumerate 0 (concat (map items_of blocks))) \<and>
   filter is_heading_op (operations (buildRestructurePayload p uuid (map RUnsectioned blocks))) = [] \<and>
   map entry_id (operations (buildRestructurePayload p uuid (map RUnsectioned blocks))) =
     map (\<lambda>i. Some (JStr i)) (concat (map items_of blocks)) \<and>
   map (jfield ''operation'') (operations (buildRestructurePayload p uuid (map RUnsectioned blocks))) =
     replicate (length (concat (map items_of blocks))) (Some (JStr ''move'')) \<and>
   map entry_index (operations (buildRestructurePayload p uuid (map RUnsectioned blocks))) =
     map (\<lambda>k. Some (JNum k)) [0 ..< length (concat (map items_of blocks))]"
proof -
  have ops: "operations (buildRestructurePayload p uuid (map RUnsectioned blocks)) =
      map (\<lambda>(k, i). todo_move_entry p None i k) (enumerate 0 (concat (map items_of blocks)))"
    by (simp add: buildRestructurePayload_def Let_def loop_unsectioned_eq)
  show ?thesis
    unfolding ops moves_index moves_id moves_operation moves_not_heading by simp
qed

text \<open>
  C9: in the operations list all heading operations come before all to-do moves,
  whatever the order of the blocks: the list is its heading operations followed by its
  to-do moves. The indices of the to-do moves are 0, 1, 2, ... along the whole list: one
  counter runs through all blocks.
\<close>

theorem restructure_headings_before_todos:
  "operations (buildRestructurePayload p uuid layout) =
     filter is_heading_op (operations (buildRestructurePayload p uuid layout)) @
     filter is_todo_move (operations (buildRestructurePayload p uuid layout)) \<and>
   map entry_index (filter is_todo_move (operations (buildRestructurePayload p uuid layout))) =
     map (\<lambda>k. Some (JNum k))
       [0 ..< length (filter is_todo_move (operations (buildRestructurePayload p uuid layout)))]"
proof -
  obtain hs ts where s: "operations (buildRestructurePayload p uuid layout) = hs @ ts"
      "list_all is_heading_op hs" "list_all is_todo_move ts"
      "map entry_index ts = map (\<lambda>k. Some (JNum k)) [0 ..< length ts]"
    using payload_split[of p uuid layout] by blast
  have f: "filter is_heading_op (hs @ ts) = hs" "filter is_todo_move (hs @ ts) = ts"
    using filter_split_append[OF s(2) s(3) heading_not_todo] by simp_all
  show ?thesis
    unfolding s(1) f using s(4) by simp
qed

text \<open>
  C10: a heading with operation \<^verbatim>\<open>delete\<close> and no id (missing, or the empty string)
  leaves the loop state as it is, but for the call of \<^verbatim>\<open>randomUUID\<close> made when the id is
  missing: no heading operation is pushed and no to-do listed under it is moved. Appended
  to a layout, such a heading does not change the payload.
\<close>

theorem restructure_delete_without_id:
  assumes "rh_operation h = Some Delete" and "\<not> truthy (rh_id h)"
  shows "restructure_step p uuid (RHeading h) st =
           st\<lparr>uuidCalls := uuidCalls st + (if rh_id h = None then 1 else 0)\<rparr> \<and>
         headingOperations (restructure_step p uuid (RHeading h) st) = headingOperations st \<and>
         todoOperations (restructure_step p uuid (RHeading h) st) = todoOperations st \<and>
         buildRestructurePayload p uuid (xs @ [RHeading h]) = buildRestructurePayload p uuid xs"
proof -
  note eq = step_delete_without_id[OF assms]
  have "buildRestructurePayload p uuid (xs @ [RHeading h]) = buildRestructurePayload p uuid xs"
    by (simp add: buildRestructurePayload_def Let_def loop_append eq)
  then show ?thesis
    by (simp add: eq)
qed

theorem restructure_delete_without_id_witness:
  "rh_operation \<lparr>rh_id = None, rh_title = Some ''Old'', rh_operation = Some Delete,
       rh_index = None, rh_items = Some [''T1'', ''T2'']\<rparr> = Some Delete \<and>
   \<not> truthy (rh_id \<lparr>rh_id = None, rh_title = Some ''Old'', rh_operation = Some Delete,
       rh_index = None, rh_items = Some [''T1'', ''T2'']\<rparr>) \<and>
   operations (buildRestructurePayload ''P'' (\<lambda>n. ''uuid'')
     ([RUnsectioned (Some [''A''])] @
      [RHeading \<lparr>rh_id = None, rh_title = Some ''Old'', rh_operation = Some Delete,
         rh_index = None, rh_items = Some [''T1'', ''T2'']\<rparr>])) =
     [todo_move_entry ''P'' None ''A'' 0]"
  using restructure_delete_without_id[of
      "\<lparr>rh_id = None, rh_title = Some ''Old'', rh_operation = Some Delete,
        rh_index = None, rh_items = Some [''T1'', ''T2'']\<rparr>"
      "''P''" "\<lambda>n. ''uuid''" restructure_init "[RUnsectioned (Some [''A''])]"]
  by (simp add: buildRestructurePayload_def restructure_step.simps push_todos_def push_todo_def
      restructure_init_def)

section \<open>Query parameters\<close>

subsection \<open>Reading a parameter after guarded sets\<close>

lemma map_of_filter_other:
  "k \<noteq> name \<Longrightarrow> map_of (filter (\<lambda>(m, _). m \<noteq> name) u) k = map_of u k"
  by (induction u) auto

lemma usp_get_set:
  "usp_get k (usp_set name v u) = (if k = name then Some v else usp_get k u)"
  unfolding usp_get_def
  by (induction u) (auto simp: map_of_filter_other)

lemma usp_get_Nil [simp]: "usp_get k [] = None"
  by (simp add: usp_get_def)

lemma usp_get_Cons [simp]:
  "usp_get k ((n, v) # u) = (if k = n then Some v else usp_get k u)"
  by (simp add: usp_get_def)

lemma statements_Nil [simp]: "statements [] s = s"
  by (simp add: statements_def)

lemma statements_Cons [simp]: "statements (f # fs) s = statements fs (f s)"
  by (simp add: statements_def)

lemma usp_get_set_truthy:
  "usp_get k (set_truthy name x u) = (if k = name \<and> truthy x then x else usp_get k u)"
  by (cases x) (simp_all add: set_truthy_def usp_get_set)

lemma usp_get_set_defined:
  "usp_get k (set_defined name x u) = (if k = name \<and> x \<noteq> None then x else usp_get k u)"
  by (cases x) (simp_all add: set_defined_def usp_get_set)

lemma usp_get_set_bool:
  "usp_get k (set_bool name x u) =
     (if k = name \<and> x \<noteq> None then map_option bool_toString x else usp_get k u)"
  by (cases x) (simp_all add: set_bool_def usp_get_set)

lemma usp_get_set_joined_nonempty:
  "usp_get k (set_joined_nonempty name sep xs u) =
     (if k = name \<and> has_length xs then Some (js_join sep (items_of xs)) else usp_get k u)"
  by (simp add: set_joined_nonempty_def usp_get_set)

lemma usp_get_set_joined_defined:
  "usp_get k (set_joined_defined name sep xs u) =
     (if k = name \<and> xs \<noteq> None then map_option (js_join sep) xs else usp_get k u)"
  by (cases xs) (simp_all add: set_joined_defined_def usp_get_set)

lemmas usp_get_simps =
  usp_get_set usp_get_set_truthy usp_get_set_defined usp_get_set_bool
  usp_get_set_joined_nonempty usp_get_set_joined_defined

lemma use_clipboard_nonempty: "truthy (map_option use_clipboard_string x) \<longleftrightarrow> x \<noteq> None"
  by (cases x; cases "the x") simp_all

subsection \<open>The value of every key, tool by tool\<close>

lemma add_todo_lookup:
  "usp_get ''title'' (add_todo_params a) =
     (if \<not> truthy (at_titles a) \<and> truthy (at_title a) then at_title a else None)"
  "usp_get ''titles'' (add_todo_params a) =
     (if truthy (at_titles a) then at_titles a else None)"
  "usp_get ''notes'' (add_todo_params a) =
     (if truthy (at_notes a) then at_notes a else None)"
  "usp_get ''when'' (add_todo_params a) =
     (if truthy (at_when a) then at_when a else None)"
  "usp_get ''deadline'' (add_todo_params a) =
     (if truthy (at_deadline a) then at_deadline a else None)"
  "usp_get ''tags'' (add_todo_params a) =
     (if has_length (at_tags a) then Some (js_join '','' (items_of (at_tags a))) else None)"
  "usp_get ''checklist-items'' (add_todo_params a) =
     (if has_length (at_checklist_items a) then Some (js_join [CHR 0x0A] (items_of (at_checklist_items a))) else None)"
  "usp_get ''use-clipboard'' (add_todo_params a) =
     map_option use_clipboard_string (at_use_clipboard a)"
  "usp_get ''list-id'' (add_todo_params a) =
     (if truthy (at_list_id a) then at_list_id a else None)"
  "usp_get ''list'' (add_todo_params a) =
     (if truthy (at_list a) then at_list a else None)"
  "usp_get ''heading-id'' (add_todo_params a) =
     (if truthy (at_heading_id a) then at_heading_id a else None)"
  "usp_get ''heading'' (add_todo_params a) =
     (if truthy (at_heading a) then at_heading a else None)"
  "usp_get ''completed'' (add_todo_params a) =
     map_option bool_toString (at_completed a)"
  "usp_get ''canceled'' (add_todo_params a) =
     map_option bool_toString (at_canceled a)"
  "usp_get ''show-quick-entry'' (add_todo_params a) =
     map_option bool_toString (at_show_quick_entry a)"
  "usp_get ''reveal'' (add_todo_params a) =
     map_option bool_toString (at_reveal a)"
  "usp_get ''creation-date'' (add_todo_params a) =
     (if truthy (at_creation_date a) then at_creation_date a else None)"
  "usp_get ''completion-date'' (add_todo_params a) =
     (if truthy (at_completion_date a) then at_completion_date a else None)"
  by (simp_all add: add_todo_params_def usp_get_simps use_clipboard_nonempty)

lemma add_project_lookup:
  "usp_get ''notes'' (add_project_params b) =
     (if truthy (ap_notes b) then ap_notes b else None)"
  "usp_get ''when'' (add_project_params b) =
     (if truthy (ap_when b) then ap_when b else None)"
  "usp_get ''deadline'' (add_project_params b) =
     (if truthy (ap_deadline b) then ap_deadline b else None)"
  "usp_get ''tags'' (add_project_params b) =
     (if has_length (ap_tags b) then Some (js_join '','' (items_of (ap_tags b))) else None)"
  "usp_get ''area-id'' (add_project_params b) =
     (if truthy (ap_area_id b) then ap_area_id b else None)"
  "usp_get ''area'' (add_project_params b) =
     (if truthy (ap_area b) then ap_area b else None)"
  "usp_get ''to-dos'' (add_project_params b) =
     (if has_length (ap_to_dos b) then Some (js_join [CHR 0x0A] (items_of (ap_to_dos b))) else None)"
  "usp_get ''completed'' (add_project_params b) =
     map_option bool_toString (ap_completed b)"
  "usp_get ''canceled'' (add_project_params b) =
     map_option bool_toString (ap_canceled b)"
  "usp_get ''reveal'' (add_project_params b) =
     map_option bool_toString (ap_reveal b)"
  "usp_get ''creation-date'' (add_project_params b) =
     (if truthy (ap_creation_date b) then ap_creation_date b else None)"
  "usp_get ''completion-date'' (add_project_params b) =
     (if truthy (ap_completion_date b) then ap_completion_date b else None)"
  by (simp_all add: add_project_params_def usp_get_simps)

lemma create_structured_project_lookup:
  "usp_get ''reveal'' (create_structured_project_params env data c) =
     map_option bool_toString (cs_reveal c)"
  by (simp_all add: create_structured_project_params_def usp_get_simps)

lemma update_lookup:
  "usp_get ''title'' (update_params tok u) =
     (if truthy (up_title u) then up_title u else None)"
  "usp_get ''notes'' (update_params tok u) =
     up_notes u"
  "usp_get ''prepend-notes'' (update_params tok u) =
     (if truthy (up_prepend_notes u) then up_prepend_notes u else None)"
  "usp_get ''append-notes'' (update_params tok u) =
     (if truthy (up_append_notes u) then up_append_notes u else None)"
  "usp_get ''when'' (update_params tok u) =
     up_when u"
  "usp_get ''deadline'' (update_params tok u) =
     up_deadline u"
  "usp_get ''tags'' (update_params tok u) =
     map_option (js_join '','') (up_tags u)"
  "usp_get ''add-tags'' (update_params tok u) =
     map_option (js_join '','') (up_add_tags u)"
  "usp_get ''checklist-items'' (update_params tok u) =
     map_option (js_join [CHR 0x0A]) (up_checklist_items u)"
  "usp_get ''prepend-checklist-items'' (update_params tok u) =
     map_option (js_join [CHR 0x0A]) (up_prepend_checklist_items u)"
  "usp_get ''append-checklist-items'' (update_params tok u) =
     map_option (js_join [CHR 0x0A]) (up_append_checklist_items u)"
  "usp_get ''list-id'' (update_params tok u) =
     (if truthy (up_list_id u) then up_list_id u else None)"
  "usp_get ''list'' (update_params tok u) =
     (if truthy (up_list u) then up_list u else None)"
  "usp_get ''heading-id'' (update_params tok u) =
     (if truthy (up_heading_id u) then up_heading_id u else None)"
  "usp_get ''heading'' (update_params tok u) =
     (if truthy (up_heading u) then up_heading u else None)"
  "usp_get ''completed'' (update_params tok u) =
     map_option bool_toString (up_completed u)"
  "usp_get ''canceled'' (update_params tok u) =
     map_option bool_toString (up_canceled u)"
  "usp_get ''reveal'' (update_params tok u) =
     map_option bool_toString (up_reveal u)"
  "usp_get ''duplicate'' (update_params tok u) =
     map_option bool_toString (up_duplicate u)"
  "usp_get ''creation-date'' (update_params tok u) =
     (if truthy (up_creation_date u) then up_creation_date u else None)"
  "usp_get ''completion-date'' (update_params tok u) =
     (if truthy (up_completion_date u) then up_completion_date u else None)"
  by (simp_all add: update_params_def usp_get_simps)

lemma update_project_lookup:
  "usp_get ''title'' (update_project_params tok v) =
     (if truthy (pp_title v) then pp_title v else None)"
  "usp_get ''notes'' (update_project_params tok v) =
     pp_notes v"
  "usp_get ''prepend-notes'' (update_project_params tok v) =
     (if truthy (pp_prepend_notes v) then pp_prepend_notes v else None)"
  "usp_get ''append-notes'' (update_project_params tok v) =
     (if truthy (pp_append_notes v) then pp_append_notes v else None)"
  "usp_get ''when'' (update_project_params tok v) =
     pp_when v"
  "usp_get ''deadline'' (update_project_params tok v) =
     pp_deadline v"
  "usp_get ''tags'' (update_project_params tok v) =
     map_option (js_join '','') (pp_tags v)"
  "usp_get ''add-tags'' (update_project_params tok v) =
     map_option (js_join '','') (pp_add_tags v)"
  "usp_get ''area-id'' (update_project_params tok v) =
     (if truthy (pp_area_id v) then pp_area_id v else None)"
  "usp_get ''area'' (update_project_params tok v) =
     (if truthy (pp_area v) then pp_area v else None)"
  "usp_get ''completed'' (update_project_params tok v) =
     map_option bool_toString (pp_completed v)"
  "usp_get ''canceled'' (update_project_params tok v) =
     map_option bool_toString (pp_canceled v)"
  "usp_get ''reveal'' (update_project_params tok v) =
     map_option bool_toString (pp_reveal v)"
  "usp_get ''duplicate'' (update_project_params tok v) =
     map_option bool_toString (pp_duplicate v)"
  "usp_get ''creation-date'' (update_project_params tok v) =
     (if truthy (pp_creation_date v) then pp_creation_date v else None)"
  "usp_get ''completion-date'' (update_project_params tok v) =
     (if truthy (pp_completion_date v) then pp_completion_date v else None)"
  by (simp_all add: update_project_params_def usp_get_simps)

lemma show_lookup:
  "usp_get ''id'' (show_params s) =
     (if truthy (sw_id s) then sw_id s else None)"
  "usp_get ''query'' (show_params s) =
     (if \<not> truthy (sw_id s) \<and> truthy (sw_query s) then sw_query s else None)"
  "usp_get ''filter'' (show_params s) =
     (if has_length (sw_filter s) then Some (js_join '','' (items_of (sw_filter s))) else None)"
  by (simp_all add: show_params_def usp_get_simps)

lemma search_lookup:
  "usp_get ''query'' (search_params q) =
     (if truthy (se_query q) then se_query q else None)"
  by (simp_all add: search_params_def usp_get_simps)

lemma json_lookup:
  "usp_get ''reveal'' (json_params env j) =
     map_option bool_toString (js_reveal j)"
  by (simp_all add: json_params_def usp_get_simps)

lemma auth_token_omitted:
  "js_auth_token j = None \<and> \<not> truthy env \<longrightarrow>
      usp_get ''auth-token'' (json_params env j) = None"
  "cs_auth_token c = None \<and> \<not> truthy env \<longrightarrow>
      usp_get ''auth-token'' (create_structured_project_params env data c) = None"
  by (simp_all add: json_params_def create_structured_project_params_def usp_get_simps nullish_or_def)

lemma auth_token_param:
  "usp_get ''auth-token'' (update_params t u) = Some t"
  "usp_get ''auth-token'' (update_project_params t v) = Some t"
  "usp_get ''auth-token'' (restructure_project_params t data) = Some t"
  by (simp_all add: update_params_def update_project_params_def restructure_project_params_def
      usp_get_simps)

subsection \<open>Absent, empty and false inputs\<close>

lemma add_todo_absent:
  "(\<forall>(key, holds) \<in> set [(''title'', at_title a = None),
                          (''titles'', at_titles a = None),
                          (''notes'', at_notes a = None),
                          (''when'', at_when a = None),
                          (''deadline'', at_deadline a = None),
                          (''tags'', at_tags a = None),
                          (''checklist-items'', at_checklist_items a = None),
                          (''use-clipboard'', at_use_clipboard a = None),
                          (''list-id'', at_list_id a = None),
                          (''list'', at_list a = None),
                          (''heading-id'', at_heading_id a = None),
                          (''heading'', at_heading a = None),
                          (''completed'', at_completed a = None),
                          (''canceled'', at_canceled a = None),
                          (''show-quick-entry'', at_show_quick_entry a = None),
                          (''reveal'', at_reveal a = None),
                          (''creation-date'', at_creation_date a = None),
                          (''completion-date'', at_completion_date a = None)].
       holds \<longrightarrow> usp_get key (add_todo_params a) = None)"
  by (simp add: add_todo_lookup)

lemma add_todo_omit_empty:
  "(\<forall>(key, holds) \<in> set [(''title'', at_title a = Some []),
                          (''titles'', at_titles a = Some []),
                          (''notes'', at_notes a = Some []),
                          (''when'', at_when a = Some []),
                          (''deadline'', at_deadline a = Some []),
                          (''tags'', at_tags a = Some []),
                          (''checklist-items'', at_checklist_items a = Some []),
                          (''list-id'', at_list_id a = Some []),
                          (''list'', at_list a = Some []),
                          (''heading-id'', at_heading_id a = Some []),
                          (''heading'', at_heading a = Some []),
                          (''creation-date'', at_creation_date a = Some []),
                          (''completion-date'', at_completion_date a = Some [])].
       holds \<longrightarrow> usp_get key (add_todo_params a) = None)"
  by (simp add: add_todo_lookup)

lemma add_todo_false:
  "(\<forall>(key, holds) \<in> set [(''completed'', at_completed a = Some False),
                          (''canceled'', at_canceled a = Some False),
                          (''show-quick-entry'', at_show_quick_entry a = Some False),
                          (''reveal'', at_reveal a = Some False)].
       holds \<longrightarrow> usp_get key (add_todo_params a) = Some ''false'')"
  by (simp add: add_todo_lookup del: map_option_eq_Some)

lemma add_project_absent:
  "(\<forall>(key, holds) \<in> set [(''notes'', ap_notes b = None),
                          (''when'', ap_when b = None),
                          (''deadline'', ap_deadline b = None),
                          (''tags'', ap_tags b = None),
                          (''area-id'', ap_area_id b = None),
                          (''area'', ap_area b = None),
                          (''to-dos'', ap_to_dos b = None),
                          (''completed'', ap_completed b = None),
                          (''canceled'', ap_canceled b = None),
                          (''reveal'', ap_reveal b = None),
                          (''creation-date'', ap_creation_date b = None),
                          (''completion-date'', ap_completion_date b = None)].
       holds \<longrightarrow> usp_get key (add_project_params b) = None)"
  by (simp add: add_project_lookup)

lemma add_project_omit_empty:
  "(\<forall>(key, holds) \<in> set [(''notes'', ap_notes b = Some []),
                          (''when'', ap_when b = Some []),
                          (''deadline'', ap_deadline b = Some []),
                          (''tags'', ap_tags b = Some []),
                          (''area-id'', ap_area_id b = Some []),
                          (''area'', ap_area b = Some []),
                          (''to-dos'', ap_to_dos b = Some []),
                          (''creation-date'', ap_creation_date b = Some []),
                          (''completion-date'', ap_completion_date b = Some [])].
       holds \<longrightarrow> usp_get key (add_project_params b) = None)"
  by (simp add: add_project_lookup)

lemma add_project_false:
  "(\<forall>(key, holds) \<in> set [(''completed'', ap_completed b = Some False),
                          (''canceled'', ap_canceled b = Some False),
                          (''reveal'', ap_reveal b = Some False)].
       holds \<longrightarrow> usp_get key (add_project_params b) = Some ''false'')"
  by (simp add: add_project_lookup del: map_option_eq_Some)

lemma create_structured_project_absent:
  "(\<forall>(key, holds) \<in> set [(''reveal'', cs_reveal c = None)].
       holds \<longrightarrow> usp_get key (create_structured_project_params env data c) = None)"
  by (simp add: create_structured_project_lookup)

lemma create_structured_project_false:
  "(\<forall>(key, holds) \<in> set [(''reveal'', cs_reveal c = Some False)].
       holds \<longrightarrow> usp_get key (create_structured_project_params env data c) = Some ''false'')"
  by (simp add: create_structured_project_lookup del: map_option_eq_Some)

lemma update_absent:
  "(\<forall>(key, holds) \<in> set [(''title'', up_title u = None),
                          (''notes'', up_notes u = None),
                          (''prepend-notes'', up_prepend_notes u = None),
                          (''append-notes'', up_append_notes u = None),
                          (''when'', up_when u = None),
                          (''deadline'', up_deadline u = None),
                          (''tags'', up_tags u = None),
                          (''add-tags'', up_add_tags u = None),
                          (''checklist-items'', up_checklist_items u = None),
                          (''prepend-checklist-items'', up_prepend_checklist_items u = None),
                          (''append-checklist-items'', up_append_checklist_items u = None),
                          (''list-id'', up_list_id u = None),
                          (''list'', up_list u = None),
                          (''heading-id'', up_heading_id u = None),
                          (''heading'', up_heading u = None),
                          (''completed'', up_completed u = None),
                          (''canceled'', up_canceled u = None),
                          (''reveal'', up_reveal u = None),
                          (''duplicate'', up_duplicate u = None),
                          (''creation-date'', up_creation_date u = None),
                          (''completion-date'', up_completion_date u = None)].
       holds \<longrightarrow> usp_get key (update_params tok u) = None)"
  by (simp add: update_lookup)

lemma update_omit_empty:
  "(\<forall>(key, holds) \<in> set [(''title'', up_title u = Some []),
                          (''prepend-notes'', up_prepend_notes u = Some []),
                          (''append-notes'', up_append_notes u = Some []),
                          (''list-id'', up_list_id u = Some []),
                          (''list'', up_list u = Some []),
                          (''heading-id'', up_heading_id u = Some []),
                          (''heading'', up_heading u = Some []),
                          (''creation-date'', up_creation_date u = Some []),
                          (''completion-date'', up_completion_date u = Some [])].
       holds \<longrightarrow> usp_get key (update_params tok u) = None)"
  by (simp add: update_lookup)

lemma update_keep_empty:
  "(\<forall>(key, holds) \<in> set [(''notes'', up_notes u = Some []),
                          (''when'', up_when u = Some []),
                          (''deadline'', up_deadline u = Some []),
                          (''tags'', up_tags u = Some []),
                          (''add-tags'', up_add_tags u = Some []),
                          (''checklist-items'', up_checklist_items u = Some []),
                          (''prepend-checklist-items'', up_prepend_checklist_items u = Some []),
                          (''append-checklist-items'', up_append_checklist_items u = Some [])].
       holds \<longrightarrow> usp_get key (update_params tok u) = Some [])"
  by (simp add: update_lookup)

lemma update_false:
  "(\<forall>(key, holds) \<in> set [(''completed'', up_completed u = Some False),
                          (''canceled'', up_canceled u = Some False),
                          (''reveal'', up_reveal u = Some False),
                          (''duplicate'', up_duplicate u = Some False)].
       holds \<longrightarrow> usp_get key (update_params tok u) = Some ''false'')"
  by (simp add: update_lookup del: map_option_eq_Some)

lemma update_project_absent:
  "(\<forall>(key, holds) \<in> set [(''title'', pp_title v = None),
                          (''notes'', pp_notes v = None),
                          (''prepend-notes'', pp_prepend_notes v = None),
                          (''append-notes'', pp_append_notes v = None),
                          (''when'', pp_when v = None),
                          (''deadline'', pp_deadline v = None),
                          (''tags'', pp_tags v = None),
                          (''add-tags'', pp_add_tags v = None),
                          (''area-id'', pp_area_id v = None),
                          (''area'', pp_area v = None),
                          (''completed'', pp_completed v = None),
                          (''canceled'', pp_canceled v = None),
                          (''reveal'', pp_reveal v = None),
                          (''duplicate'', pp_duplicate v = None),
                          (''creation-date'', pp_creation_date v = None),
                          (''completion-date'', pp_completion_date v = None)].
       holds \<longrightarrow> usp_get key (update_project_params tok v) = None)"
  by (simp add: update_project_lookup)

lemma update_project_omit_empty:
  "(\<forall>(key, holds) \<in> set [(''title'', pp_title v = Some []),
                          (''prepend-notes'', pp_prepend_notes v = Some []),
                          (''append-notes'', pp_append_notes v = Some []),
                          (''area-id'', pp_area_id v = Some []),
                          (''area'', pp_area v = Some []),
                          (''creation-date'', pp_creation_date v = Some []),
                          (''completion-date'', pp_completion_date v = Some [])].
       holds \<longrightarrow> usp_get key (update_project_params tok v) = None)"
  by (simp add: update_project_lookup)

lemma update_project_keep_empty:
  "(\<forall>(key, holds) \<in> set [(''notes'', pp_notes v = Some []),
                          (''when'', pp_when v = Some []),
                          (''deadline'', pp_deadline v = Some []),
                          (''tags'', pp_tags v = Some []),
                          (''add-tags'', pp_add_tags v = Some [])].
       holds \<longrightarrow> usp_get key (update_project_params tok v) = Some [])"
  by (simp add: update_project_lookup)

lemma update_project_false:
  "(\<forall>(key, holds) \<in> set [(''completed'', pp_completed v = Some False),
                          (''canceled'', pp_canceled v = Some False),
                          (''reveal'', pp_reveal v = Some False),
                          (''duplicate'', pp_duplicate v = Some False)].
       holds \<longrightarrow> usp_get key (update_project_params tok v) = Some ''false'')"
  by (simp add: update_project_lookup del: map_option_eq_Some)

lemma show_absent:
  "(\<forall>(key, holds) \<in> set [(''id'', sw_id s = None),
                          (''query'', sw_query s = None),
                          (''filter'', sw_filter s = None)].
       holds \<longrightarrow> usp_get key (show_params s) = None)"
  by (simp add: show_lookup)

lemma show_omit_empty:
  "(\<forall>(key, holds) \<in> set [(''id'', sw_id s = Some []),
                          (''query'', sw_query s = Some []),
                          (''filter'', sw_filter s = Some [])].
       holds \<longrightarrow> usp_get key (show_params s) = None)"
  by (simp add: show_lookup)

lemma search_absent:
  "(\<forall>(key, holds) \<in> set [(''query'', se_query q = None)].
       holds \<longrightarrow> usp_get key (search_params q) = None)"
  by (simp add: search_lookup)

lemma search_omit_empty:
  "(\<forall>(key, holds) \<in> set [(''query'', se_query q = Some [])].
       holds \<longrightarrow> usp_get key (search_params q) = None)"
  by (simp add: search_lookup)

lemma json_absent:
  "(\<forall>(key, holds) \<in> set [(''reveal'', js_reveal j = None)].
       holds \<longrightarrow> usp_get key (json_params env j) = None)"
  by (simp add: json_lookup)

lemma json_false:
  "(\<forall>(key, holds) \<in> set [(''reveal'', js_reveal j = Some False)].
       holds \<longrightarrow> usp_get key (json_params env j) = Some ''false'')"
  by (simp add: json_lookup del: map_option_eq_Some)

subsection \<open>Encoding and decoding\<close>

lemma hex_value_digit: "n < 16 \<Longrightarrow> hex_value (hex_digit n) = Some n"
  by (auto simp: hex_value_def hex_digit_def Let_def)

lemma hex_digit_safe: "n < 16 \<Longrightarrow> is_form_safe (hex_digit n)"
  by (auto simp: is_form_safe_def is_alnum_def hex_digit_def Let_def)

lemma of_char_div16: "(of_char c :: nat) div 16 < 16"
proof -
  have "(of_char c :: nat) < 16 * 16" using nat_of_char_less_256[of c] by simp
  then show ?thesis by (rule less_mult_imp_div_less)
qed

lemma special_not_safe:
  "\<not> is_form_safe CHR ''%''" "\<not> is_form_safe CHR ''+''" "\<not> is_form_safe CHR ''&''"
  "\<not> is_form_safe CHR ''=''" "\<not> is_form_safe CHR '' ''"
  by (simp_all add: is_form_safe_def is_alnum_def)

lemma percent_decode_plain:
  assumes "c \<noteq> CHR ''%''"
  shows "percent_decode (c # rest) = c # percent_decode rest"
proof (cases rest)
  case Nil
  then show ?thesis by simp
next
  case (Cons h1 r1)
  then show ?thesis using assms by (cases r1) simp_all
qed

lemma percent_decode_encoded:
  "percent_decode (percent_encode_byte c @ rest) = c # percent_decode rest"
  by (simp add: percent_encode_byte_def hex_value_digit of_char_div16)

lemma form_decode_alt: "form_decode s = percent_decode (map plus_to_space s)"
  by (simp add: form_decode_def)

lemma hex_digit_not_plus: "n < 16 \<Longrightarrow> plus_to_space (hex_digit n) = hex_digit n"
  using hex_digit_safe[of n] special_not_safe(2) by (auto simp: plus_to_space_def)

lemma decode_encoded_byte:
  "percent_decode (map plus_to_space (form_encode_byte c) @ rest) = c # percent_decode rest"
proof -
  consider "c = CHR '' ''" | "c \<noteq> CHR '' ''" "is_form_safe c"
    | "c \<noteq> CHR '' ''" "\<not> is_form_safe c" by blast
  then show ?thesis
  proof cases
    case 1
    then show ?thesis
      by (simp add: form_encode_byte_def plus_to_space_def percent_decode_plain)
  next
    case 2
    then have "c \<noteq> CHR ''%''" "c \<noteq> CHR ''+''"
      using special_not_safe by auto
    with 2 show ?thesis
      by (simp add: form_encode_byte_def plus_to_space_def percent_decode_plain)
  next
    case 3
    have "map plus_to_space (percent_encode_byte c) = percent_encode_byte c"
      by (simp add: percent_encode_byte_def hex_digit_not_plus of_char_div16)
        (simp add: plus_to_space_def)
    with 3 show ?thesis
      by (simp add: form_encode_byte_def percent_decode_encoded)
  qed
qed

lemma form_decode_encode: "form_decode (form_encode s) = s"
  unfolding form_decode_alt form_encode_def
proof (induction s)
  case Nil
  then show ?case by simp
next
  case (Cons c s)
  then show ?case using decode_encoded_byte[of c "map plus_to_space (concat (map form_encode_byte s))"]
    by simp
qed

lemma form_encode_byte_chars:
  "x \<in> set (form_encode_byte c) \<Longrightarrow> is_form_safe x \<or> x = CHR ''+'' \<or> x = CHR ''%''"
  by (auto simp: form_encode_byte_def percent_encode_byte_def hex_digit_safe of_char_div16
      split: if_splits)

lemma form_encode_chars:
  "x \<in> set (form_encode s) \<Longrightarrow> is_form_safe x \<or> x = CHR ''+'' \<or> x = CHR ''%''"
  by (auto simp: form_encode_def dest: form_encode_byte_chars)

lemma form_encode_no_sep:
  "CHR ''&'' \<notin> set (form_encode s)" "CHR ''='' \<notin> set (form_encode s)"
  using form_encode_chars[of "CHR ''&''" s] form_encode_chars[of "CHR ''=''" s] special_not_safe
  by auto

lemma split_on_none: "d \<notin> set x \<Longrightarrow> split_on d x = [x]"
  by (induction x) auto

lemma split_on_append:
  "d \<notin> set x \<Longrightarrow> split_on d (x @ d # rest) = x # split_on d rest"
  by (induction x) auto

lemma split_on_join:
  "xs \<noteq> [] \<Longrightarrow> \<forall>x\<in>set xs. d \<notin> set x \<Longrightarrow> split_on d (js_join [d] xs) = xs"
proof (induction "[d]" xs rule: js_join.induct)
  case 1
  then show ?case by simp
next
  case (2 x)
  then show ?case by (simp add: split_on_none)
next
  case (3 x y ys)
  then show ?case by (simp add: split_on_append)
qed

lemma encode_pair_no_amp: "CHR ''&'' \<notin> set (encode_pair p)"
  by (simp add: encode_pair_def form_encode_no_sep)

lemma encode_pair_nonempty: "encode_pair p \<noteq> []"
  by (simp add: encode_pair_def)

lemma parse_encode_pair: "parse_pair (encode_pair p) = p"
proof -
  have t: "takeWhile (\<lambda>c. c \<noteq> CHR ''='') (form_encode (fst p) @ CHR ''='' # form_encode (snd p)) =
      form_encode (fst p)"
    by (rule takeWhile_tail[THEN trans, rotated])
      (auto simp: form_encode_no_sep takeWhile_eq_all_conv)
  have d: "dropWhile (\<lambda>c. c \<noteq> CHR ''='') (form_encode (fst p) @ CHR ''='' # form_encode (snd p)) =
      CHR ''='' # form_encode (snd p)"
    by (subst dropWhile_append2) (auto simp: form_encode_no_sep)
  show ?thesis
    by (simp add: parse_pair_def encode_pair_def t d form_decode_encode)
qed

lemma parse_toString: "urlencoded_parse (usp_toString u) = u"
proof (cases "u = []")
  case True
  then show ?thesis by (simp add: urlencoded_parse_def usp_toString_def)
next
  case False
  then have "split_on CHR ''&'' (js_join ''&'' (map encode_pair u)) = map encode_pair u"
    by (intro split_on_join) (auto simp: encode_pair_no_amp)
  then show ?thesis
    by (simp add: urlencoded_parse_def usp_toString_def filter_map comp_def
        encode_pair_nonempty parse_encode_pair)
qed

lemma js_join_chars:
  "c \<in> set (js_join sep xs) \<Longrightarrow> c \<in> set sep \<or> (\<exists>x\<in>set xs. c \<in> set x)"
  by (induction sep xs rule: js_join.induct) auto

lemma toString_chars:
  "list_all (\<lambda>c. is_form_safe c \<or> c \<in> set ''+%=&'') (usp_toString u)"
proof -
  have "is_form_safe c \<or> c \<in> set ''+%=&''" if "c \<in> set (usp_toString u)" for c
  proof -
    from that consider "c = CHR ''&''" | p where "p \<in> set u" "c \<in> set (encode_pair p)"
      unfolding usp_toString_def using js_join_chars[of c "''&''" "map encode_pair u"] by auto
    then show ?thesis
    proof cases
      case 1
      then show ?thesis by simp
    next
      case 2
      then show ?thesis
        using form_encode_chars[of c "fst p"] form_encode_chars[of c "snd p"]
        by (auto simp: encode_pair_def)
    qed
  qed
  then show ?thesis by (simp add: list_all_iff)
qed

lemma encoding_examples:
  "usp_toString [(''tags'', js_join '','' [''work'', ''urgent'', ''follow-up''])] =
     ''tags=work%2Curgent%2Cfollow-up''"
  "usp_toString [(''to-dos'', js_join [CHR 0x0A] [''Buy milk'', ''Call dentist'', ''Review PR''])] =
     ''to-dos=Buy+milk%0ACall+dentist%0AReview+PR''"
  "usp_toString [(''completed'', bool_toString True), (''reveal'', bool_toString False)] =
     ''completed=true&reveal=false''"
  by code_simp+

lemma tags_round_trip:
  assumes "has_length (at_tags a)" "\<forall>t\<in>set (items_of (at_tags a)). CHR '','' \<notin> set t"
  shows "map_option (split_on CHR '','')
           (usp_get ''tags'' (urlencoded_parse (usp_toString (add_todo_params a)))) = at_tags a"
proof -
  obtain ts where ts: "at_tags a = Some ts" "ts \<noteq> []"
    using assms(1) by (cases "at_tags a") auto
  then have "split_on CHR '','' (js_join '','' ts) = ts"
    using assms(2) split_on_join[of ts "CHR '',''"] by simp
  then show ?thesis
    using ts by (simp add: parse_toString add_todo_lookup)
qed

lemma checklist_round_trip:
  assumes "has_length (at_checklist_items a)"
    "\<forall>t\<in>set (items_of (at_checklist_items a)). CHR 0x0A \<notin> set t"
  shows "map_option (split_on (CHR 0x0A))
           (usp_get ''checklist-items'' (urlencoded_parse (usp_toString (add_todo_params a)))) =
         at_checklist_items a"
proof -
  obtain ts where ts: "at_checklist_items a = Some ts" "ts \<noteq> []"
    using assms(1) by (cases "at_checklist_items a") auto
  then have "split_on (CHR 0x0A) (js_join [CHR 0x0A] ts) = ts"
    using assms(2) split_on_join[of ts "CHR 0x0A"] by simp
  then show ?thesis
    using ts by (simp add: parse_toString add_todo_lookup)
qed

section \<open>Handlers\<close>

lemma snd_open_then_return [simp]: "snd (open_then_return w url c) = [SpawnOpen url]"
  by (simp add: open_then_return_def openThingsURL_def split: spawn_result.splits)

lemma tool_calls:
  "snd (add_todo_tool w a) = [SpawnOpen (''things:///add?'' @ usp_toString (add_todo_params a))]"
  "snd (add_project_tool w b) =
     [SpawnOpen (''things:///add-project?'' @ usp_toString (add_project_params b))]"
  "snd (create_structured_project_tool w c) =
     [SpawnOpen (''things:///json?'' @
        usp_toString (create_structured_project_params (env_THINGS_AUTH_TOKEN w)
          (json_stringify w (JArr (buildStructuredProjectPayload (cs_project c)))) c))]"
  "snd (show_tool w s) = [SpawnOpen (''things:///show?'' @ usp_toString (show_params s))]"
  "snd (search_tool w q) = [SpawnOpen (''things:///search?'' @ usp_toString (search_params q))]"
  "snd (version_tool w) = [SpawnOpen ''things:///version'']"
  "snd (json_tool w j) =
     [SpawnOpen (''things:///json?'' @ usp_toString (json_params (env_THINGS_AUTH_TOKEN w) j))]"
  by (simp_all add: add_todo_tool_def add_project_tool_def create_structured_project_tool_def
      show_tool_def search_tool_def version_tool_def json_tool_def Let_def)

lemma update_tool_calls:
  "snd (update_tool w u) =
     (case resolveAuthToken w (up_auth_token u) of
        Inl e \<Rightarrow> []
      | Inr t \<Rightarrow> [SpawnOpen (''things:///update?'' @ usp_toString (update_params t u))])"
  "snd (update_project_tool w v) =
     (case resolveAuthToken w (pp_auth_token v) of
        Inl e \<Rightarrow> []
      | Inr t \<Rightarrow> [SpawnOpen (''things:///update-project?'' @ usp_toString (update_project_params t v))])"
  by (simp_all add: update_tool_def update_project_tool_def Let_def split: sum.splits)

lemma restructure_tool_calls:
  "length (snd (restructure_project_tool w r)) \<le> 1 \<and>
   list_all (\<lambda>c. \<not> is_exec_call c) (snd (restructure_project_tool w r))"
  by (simp add: restructure_project_tool_def Let_def is_exec_call_def split: sum.splits)

lemma evaluate_tool_calls:
  "length (snd (evaluate_tool w e)) \<le> 1 \<and>
   list_all is_exec_call (snd (evaluate_tool w e))"
  by (simp add: evaluate_tool_def Let_def is_exec_call_def split: sum.splits exec_result.splits)

lemma js_trim_Nil [simp]: "js_trim [] = []"
  by (simp add: js_trim_def strip_leading.simps js_whitespace_def)

lemma usable_token_iff: "usable_token x = Some t \<longleftrightarrow> x = Some t \<and> js_trim t \<noteq> []"
  by (cases x) (auto simp: usable_token_def)

lemma resolveAuthToken_cases:
  "usable_token p = Some t \<Longrightarrow> resolveAuthToken w p = Inr t"
  "usable_token p = None \<Longrightarrow> usable_token (env_THINGS_AUTH_TOKEN w) = Some t \<Longrightarrow>
     resolveAuthToken w p = Inr t"
  "usable_token p = None \<Longrightarrow> usable_token (env_THINGS_AUTH_TOKEN w) = None \<Longrightarrow>
     resolveAuthToken w p = Inl AuthTokenRequired"
  by (simp_all add: resolveAuthToken_def)

lemma update_tool_resolved:
  "resolveAuthToken w (up_auth_token u) = Inr t \<Longrightarrow>
     snd (update_tool w u) = [SpawnOpen (''things:///update?'' @ usp_toString (update_params t u))]"
  "resolveAuthToken w (up_auth_token u) = Inl e \<Longrightarrow> update_tool w u = (Inl e, [])"
  by (simp_all add: update_tool_def Let_def)

lemma update_project_tool_resolved:
  "resolveAuthToken w (pp_auth_token v) = Inr t \<Longrightarrow>
     snd (update_project_tool w v) =
       [SpawnOpen (''things:///update-project?'' @ usp_toString (update_project_params t v))]"
  "resolveAuthToken w (pp_auth_token v) = Inl e \<Longrightarrow> update_project_tool w v = (Inl e, [])"
  by (simp_all add: update_project_tool_def Let_def)

lemma restructure_tool_resolved:
  "operations (buildRestructurePayload (rp_project_id r) (randomUUID w) (rp_layout r)) \<noteq> [] \<Longrightarrow>
   resolveAuthToken w (rp_auth_token r) = Inr t \<Longrightarrow>
     snd (restructure_project_tool w r) =
       [SpawnOpen (''things:///json?'' @
          usp_toString (restructure_project_params t
            (json_stringify w (JArr (operations
               (buildRestructurePayload (rp_project_id r) (randomUUID w) (rp_layout r)))))))]"
  "operations (buildRestructurePayload (rp_project_id r) (randomUUID w) (rp_layout r)) \<noteq> [] \<Longrightarrow>
   resolveAuthToken w (rp_auth_token r) = Inl e \<Longrightarrow>
     restructure_project_tool w r = (Inl e, [])"
  "operations (buildRestructurePayload (rp_project_id r) (randomUUID w) (rp_layout r)) = [] \<Longrightarrow>
     restructure_project_tool w r = (Inl NoOperationsGenerated, [])"
  by (simp_all add: restructure_project_tool_def Let_def)

subsection \<open>Example inputs\<close>

lemma js_trim_examples:
  "js_trim ''tok'' = ''tok''" "js_trim ''env-token'' = ''env-token''" "js_trim '' '' = []"
  by (simp_all add: js_trim_def strip_leading.simps js_whitespace_def)

lemma update_url_example:
  "usp_toString (update_params ''tok'' (update_only_id ''T1'')) = ''id=T1&auth-token=tok''"
  "usp_toString (update_params ''env-token'' ((update_only_id ''T1'')\<lparr>up_auth_token := Some '' ''\<rparr>)) =
     ''id=T1&auth-token=env-token''"
  "usp_toString (update_params ''tok'' ((update_only_id ''T1'')\<lparr>up_auth_token := Some ''tok''\<rparr>)) =
     ''id=T1&auth-token=tok''"
  by (simp_all add: update_only_id_def update_params_def
      set_truthy_def set_defined_def set_bool_def set_joined_defined_def
      usp_toString_def encode_pair_def form_encode_def form_encode_byte_def is_form_safe_def
      is_alnum_def percent_encode_byte_def hex_digit_def)

lemma fixture_fields [simp]:
  "up_auth_token (update_only_id i) = None"
  "pp_auth_token (update_project_only_id i) = None"
  "env_THINGS_AUTH_TOKEN (quiet_world env) = env"
  "randomUUID (quiet_world env) = (\<lambda>n. ''uuid'')"
  by (simp_all add: update_only_id_def update_project_only_id_def quiet_world_def)

lemma usable_token_examples:
  "usable_token (Some ''tok'') = Some ''tok''" "usable_token None = None"
  "usable_token (Some '' '') = None" "usable_token (Some ''env-token'') = Some ''env-token''"
  by (simp_all add: usable_token_def js_trim_examples)

lemma unsectioned_example:
  "operations (buildRestructurePayload ''P'' (\<lambda>n. ''uuid'') [RUnsectioned (Some [''A''])]) \<noteq> []"
  "operations (buildRestructurePayload ''P'' (\<lambda>n. ''uuid'') [RUnsectioned None]) = []"
  by (simp_all add: buildRestructurePayload_def restructure_step.simps push_todos_def push_todo_def
      restructure_init_def)

subsection \<open>The serializer written out\<close>

lemma hex_digit_table: "map hex_digit [0..<16] = ''0123456789ABCDEF''"
  by code_simp

lemma mem_via_code: "c \<in> set cs \<longleftrightarrow> (of_char c :: nat) \<in> set (map of_char cs)"
  by (auto simp: image_iff)

lemma safe_codes:
  "map of_char ''ABCDEFGHIJKLMNOPQRSTUVWXYZabcdefghijklmnopqrstuvwxyz0123456789*-._'' =
     [65..<91] @ [97..<123] @ [48..<58] @ [42, 45, 46, 95 :: nat]"
  by code_simp

lemma punct_codes: "map of_char ''*-._'' = [42, 45, 46, 95 :: nat]"
  by simp

lemma is_form_safe_table:
  "is_form_safe c \<longleftrightarrow>
     c \<in> set ''ABCDEFGHIJKLMNOPQRSTUVWXYZabcdefghijklmnopqrstuvwxyz0123456789*-._''"
proof -
  have p: "c \<in> set ''*-._'' \<longleftrightarrow> (of_char c :: nat) \<in> set [42, 45, 46, 95]"
    unfolding mem_via_code[of c "''*-._''"] punct_codes ..
  have q: "(of_char c :: nat) \<in> set ([65..<91] @ [97..<123] @ [48..<58] @ [42, 45, 46, 95]) \<longleftrightarrow>
      (48 \<le> (of_char c :: nat) \<and> (of_char c :: nat) \<le> 57) \<or>
      (65 \<le> (of_char c :: nat) \<and> (of_char c :: nat) \<le> 90) \<or>
      (97 \<le> (of_char c :: nat) \<and> (of_char c :: nat) \<le> 122) \<or>
      (of_char c :: nat) \<in> set [42, 45, 46, 95]"
    unfolding set_append set_upt by auto
  show ?thesis
    unfolding is_form_safe_def is_alnum_def Let_def p
      mem_via_code[of c "''ABCDEFGHIJKLMNOPQRSTUVWXYZabcdefghijklmnopqrstuvwxyz0123456789*-._''"]
      safe_codes q by blast
qed

lemma form_encode_explicit:
  "form_encode s =
     concat (map (\<lambda>c. if c = CHR '' '' then ''+''
                        else if c \<in> set ''ABCDEFGHIJKLMNOPQRSTUVWXYZabcdefghijklmnopqrstuvwxyz0123456789*-._''
                        then [c]
                        else [CHR ''%'', hex_digit ((of_char c :: nat) div 16),
                              hex_digit ((of_char c :: nat) mod 16)]) s)"
  unfolding form_encode_def form_encode_byte_def percent_encode_byte_def is_form_safe_table ..

lemma encode_pair_explicit: "encode_pair = (\<lambda>(n, v). form_encode n @ ''='' @ form_encode v)"
  by (auto simp: fun_eq_iff encode_pair_def)

lemma usp_toString_explicit:
  "usp_toString ps = js_join ''&'' (map (\<lambda>(n, v). form_encode n @ ''='' @ form_encode v) ps)"
  unfolding usp_toString_def encode_pair_explicit ..

lemma restructure_tool_url:
  "snd (restructure_project_tool w r) =
     (if operations (buildRestructurePayload (rp_project_id r) (randomUUID w) (rp_layout r)) = []
      then []
      else (case resolveAuthToken w (rp_auth_token r) of
              Inl e \<Rightarrow> []
            | Inr t \<Rightarrow>
                [SpawnOpen (''things:///json?'' @
                   usp_toString (restructure_project_params t
                     (json_stringify w (JArr (operations
                        (buildRestructurePayload (rp_project_id r) (randomUUID w)
                           (rp_layout r)))))))]))"
  by (simp add: restructure_project_tool_def Let_def split: sum.splits)

lemma hex_digit_values:
  "hex_digit 0 = CHR ''0''"
  "hex_digit 1 = CHR ''1''"
  "hex_digit 2 = CHR ''2''"
  "hex_digit 3 = CHR ''3''"
  "hex_digit 4 = CHR ''4''"
  "hex_digit 5 = CHR ''5''"
  "hex_digit 6 = CHR ''6''"
  "hex_digit 7 = CHR ''7''"
  "hex_digit 8 = CHR ''8''"
  "hex_digit 9 = CHR ''9''"
  "hex_digit 10 = CHR ''A''"
  "hex_digit 11 = CHR ''B''"
  "hex_digit 12 = CHR ''C''"
  "hex_digit 13 = CHR ''D''"
  "hex_digit 14 = CHR ''E''"
  "hex_digit 15 = CHR ''F''"
  "hex_digit (Suc 0) = CHR ''1''"
  by code_simp+

lemma add_todo_url_example:
  "snd (add_todo_tool (quiet_world None)
     (add_todo_none\<lparr>at_title := Some ''Plan: a&b=c?'', at_tags := Some [''work'', ''urgent''],
        at_checklist_items := Some [''Buy milk'', ''Call''], at_reveal := Some True\<rparr>)) =
   [SpawnOpen ''things:///add?title=Plan%3A+a%26b%3Dc%3F&tags=work%2Curgent&checklist-items=Buy+milk%0ACall&reveal=true'']"
  by (simp add: tool_calls add_todo_none_def add_todo_params_def
      set_truthy_def set_bool_def set_joined_nonempty_def
      usp_toString_def encode_pair_def form_encode_def form_encode_byte_def is_form_safe_def
      is_alnum_def percent_encode_byte_def hex_digit_values)

section \<open>Properties of the tools\<close>

text \<open>
  C4, as amended. A token counts when it is non-empty after trimming white space
  (\<open>usable_token\<close>). For \<^verbatim>\<open>update\<close> and \<^verbatim>\<open>update-project\<close>: when the \<^verbatim>\<open>auth-token\<close>
  parameter counts, or it does not and \<^verbatim>\<open>THINGS_AUTH_TOKEN\<close> counts, the one external call
  opens the URL whose \<^verbatim>\<open>auth-token\<close> parameter is that token; when neither counts the
  handler fails with the token-required error and the list of external calls is empty.
  For \<^verbatim>\<open>restructure-project\<close> the same holds when the layout yields at least one
  operation; when it yields none, the handler fails with the no-operations error, with
  no external call, whatever the tokens.
\<close>

theorem auth_token_resolution:
  "(usable_token x = Some t \<longleftrightarrow> x = Some t \<and> js_trim t \<noteq> []) \<and>
   (usable_token (up_auth_token u) = Some t \<or>
    usable_token (up_auth_token u) = None \<and> usable_token (env_THINGS_AUTH_TOKEN w) = Some t \<longrightarrow>
      snd (update_tool w u) =
        [SpawnOpen (''things:///update?'' @ usp_toString (update_params t u))] \<and>
      usp_get ''auth-token'' (update_params t u) = Some t) \<and>
   (usable_token (up_auth_token u) = None \<and> usable_token (env_THINGS_AUTH_TOKEN w) = None \<longrightarrow>
      update_tool w u = (Inl AuthTokenRequired, [])) \<and>
   (usable_token (pp_auth_token v) = Some t \<or>
    usable_token (pp_auth_token v) = None \<and> usable_token (env_THINGS_AUTH_TOKEN w) = Some t \<longrightarrow>
      snd (update_project_tool w v) =
        [SpawnOpen (''things:///update-project?'' @ usp_toString (update_project_params t v))] \<and>
      usp_get ''auth-token'' (update_project_params t v) = Some t) \<and>
   (usable_token (pp_auth_token v) = None \<and> usable_token (env_THINGS_AUTH_TOKEN w) = None \<longrightarrow>
      update_project_tool w v = (Inl AuthTokenRequired, [])) \<and>
   (operations (buildRestructurePayload (rp_project_id r) (randomUUID w) (rp_layout r)) \<noteq> [] \<and>
    (usable_token (rp_auth_token r) = Some t \<or>
     usable_token (rp_auth_token r) = None \<and> usable_token (env_THINGS_AUTH_TOKEN w) = Some t) \<longrightarrow>
      snd (restructure_project_tool w r) =
        [SpawnOpen (''things:///json?'' @
           usp_toString (restructure_project_params t
             (json_stringify w (JArr (operations
                (buildRestructurePayload (rp_project_id r) (randomUUID w) (rp_layout r)))))))] \<and>
      usp_get ''auth-token'' (restructure_project_params t data) = Some t) \<and>
   (operations (buildRestructurePayload (rp_project_id r) (randomUUID w) (rp_layout r)) \<noteq> [] \<and>
    usable_token (rp_auth_token r) = None \<and> usable_token (env_THINGS_AUTH_TOKEN w) = None \<longrightarrow>
      restructure_project_tool w r = (Inl AuthTokenRequired, [])) \<and>
   (operations (buildRestructurePayload (rp_project_id r) (randomUUID w) (rp_layout r)) = [] \<longrightarrow>
      restructure_project_tool w r = (Inl NoOperationsGenerated, []))"
proof -
  have 1: "usable_token x = Some t \<longleftrightarrow> x = Some t \<and> js_trim t \<noteq> []"
    by (rule usable_token_iff)
  have r: "resolveAuthToken w p = Inr t"
    if "usable_token p = Some t \<or>
        usable_token p = None \<and> usable_token (env_THINGS_AUTH_TOKEN w) = Some t" for p
    using that resolveAuthToken_cases(1,2) by blast
  have n: "resolveAuthToken w p = Inl AuthTokenRequired"
    if "usable_token p = None \<and> usable_token (env_THINGS_AUTH_TOKEN w) = None" for p
    using that resolveAuthToken_cases(3) by blast
  show ?thesis
    using 1 r n update_tool_resolved[of w u] update_project_tool_resolved[of w v]
      restructure_tool_resolved[of r w] auth_token_param[of t]
    by (intro conjI impI) (simp_all only: conj_imp_eq_imp_imp, blast+)
qed

theorem auth_token_resolution_witness:
  "usable_token (up_auth_token ((update_only_id ''T1'')\<lparr>up_auth_token := Some ''tok''\<rparr>)) = Some ''tok'' \<and>
   snd (update_tool (quiet_world None) ((update_only_id ''T1'')\<lparr>up_auth_token := Some ''tok''\<rparr>)) =
     [SpawnOpen ''things:///update?id=T1&auth-token=tok''] \<and>
   usable_token (up_auth_token (update_only_id ''T1'')) = None \<and>
   usable_token (env_THINGS_AUTH_TOKEN (quiet_world (Some ''tok''))) = Some ''tok'' \<and>
   snd (update_tool (quiet_world (Some ''tok'')) (update_only_id ''T1'')) =
     [SpawnOpen ''things:///update?id=T1&auth-token=tok''] \<and>
   usable_token (env_THINGS_AUTH_TOKEN (quiet_world None)) = None \<and>
   update_tool (quiet_world None) (update_only_id ''T1'') = (Inl AuthTokenRequired, []) \<and>
   update_project_tool (quiet_world None) (update_project_only_id ''P1'') =
     (Inl AuthTokenRequired, []) \<and>
   operations (buildRestructurePayload ''P'' (randomUUID (quiet_world None)) [RUnsectioned (Some [''A''])]) \<noteq> [] \<and>
   restructure_project_tool (quiet_world None)
     \<lparr>rp_project_id = ''P'', rp_auth_token = None, rp_layout = [RUnsectioned (Some [''A''])]\<rparr> =
     (Inl AuthTokenRequired, [])"
  using
    auth_token_resolution[where x = "Some ''tok''" and t = "''tok''"
      and u = "(update_only_id ''T1'')\<lparr>up_auth_token := Some ''tok''\<rparr>"
      and w = "quiet_world None" and v = "update_project_only_id ''P1''" and data = "[]"
      and r = "\<lparr>rp_project_id = ''P'', rp_auth_token = None, rp_layout = [RUnsectioned (Some [''A''])]\<rparr>"]
    auth_token_resolution[where x = "Some ''tok''" and t = "''tok''"
      and u = "update_only_id ''T1''"
      and w = "quiet_world (Some ''tok'')" and v = "update_project_only_id ''P1''" and data = "[]"
      and r = "\<lparr>rp_project_id = ''P'', rp_auth_token = None, rp_layout = [RUnsectioned (Some [''A''])]\<rparr>"]
    auth_token_resolution[where x = "Some ''tok''" and t = "''tok''"
      and u = "update_only_id ''T1''"
      and w = "quiet_world None" and v = "update_project_only_id ''P1''" and data = "[]"
      and r = "\<lparr>rp_project_id = ''P'', rp_auth_token = None, rp_layout = [RUnsectioned (Some [''A''])]\<rparr>"]
  by (simp add: usable_token_examples js_trim_examples unsectioned_example update_url_example)

text \<open>
  C4, as stated, fails in two ways. With no token at all and a layout that yields no
  operation, \<^verbatim>\<open>restructure-project\<close> fails with the no-operations error, not with the
  token-required error. And a parameter that is present but blank (\<^verbatim>\<open>" "\<close>) is not
  used: the token of the environment variable is sent.
\<close>

theorem auth_token_error_counterexample:
  "usable_token (rp_auth_token \<lparr>rp_project_id = ''P'', rp_auth_token = None,
       rp_layout = [RUnsectioned None]\<rparr>) = None \<and>
   usable_token (env_THINGS_AUTH_TOKEN (quiet_world None)) = None \<and>
   restructure_project_tool (quiet_world None)
     \<lparr>rp_project_id = ''P'', rp_auth_token = None, rp_layout = [RUnsectioned None]\<rparr> =
     (Inl NoOperationsGenerated, []) \<and>
   up_auth_token ((update_only_id ''T1'')\<lparr>up_auth_token := Some '' ''\<rparr>) = Some '' '' \<and>
   snd (update_tool (quiet_world (Some ''env-token''))
          ((update_only_id ''T1'')\<lparr>up_auth_token := Some '' ''\<rparr>)) =
     [SpawnOpen ''things:///update?id=T1&auth-token=env-token'']"
  by (simp add: usable_token_examples unsectioned_example update_url_example
      restructure_project_tool_def update_tool_def resolveAuthToken_def Let_def)

text \<open>
  C5, as amended. In every tool, an optional field (other than \<^verbatim>\<open>auth-token\<close>) that is
  absent from the input has no key in the query parameters. A field given as the empty
  string or the empty array has no key either, except in \<^verbatim>\<open>update\<close> and
  \<^verbatim>\<open>update-project\<close>, where \<^verbatim>\<open>notes\<close>, \<^verbatim>\<open>when\<close>, \<^verbatim>\<open>deadline\<close> and the array fields are
  sent with an empty value. A boolean given as \<^verbatim>\<open>false\<close> is sent as \<^verbatim>\<open>"false"\<close>.
  \<^verbatim>\<open>json\<close> and \<^verbatim>\<open>create-structured-project\<close> omit \<^verbatim>\<open>auth-token\<close> when the parameter is
  absent and the environment variable is unset or empty. Each list pairs a key with the
  condition on the input field.
\<close>

theorem optional_fields_omitted:
  "(\<forall>(key, holds) \<in> set [(''title'', at_title a = None),
                          (''titles'', at_titles a = None),
                          (''notes'', at_notes a = None),
                          (''when'', at_when a = None),
                          (''deadline'', at_deadline a = None),
                          (''tags'', at_tags a = None),
                          (''checklist-items'', at_checklist_items a = None),
                          (''use-clipboard'', at_use_clipboard a = None),
                          (''list-id'', at_list_id a = None),
                          (''list'', at_list a = None),
                          (''heading-id'', at_heading_id a = None),
                          (''heading'', at_heading a = None),
                          (''completed'', at_completed a = None),
                          (''canceled'', at_canceled a = None),
                          (''show-quick-entry'', at_show_quick_entry a = None),
                          (''reveal'', at_reveal a = None),
                          (''creation-date'', at_creation_date a = None),
                          (''completion-date'', at_completion_date a = None)].
       holds \<longrightarrow> usp_get key (add_todo_params a) = None) \<and>
   (\<forall>(key, holds) \<in> set [(''notes'', ap_notes b = None),
                          (''when'', ap_when b = None),
                          (''deadline'', ap_deadline b = None),
                          (''tags'', ap_tags b = None),
                          (''area-id'', ap_area_id b = None),
                          (''area'', ap_area b = None),
                          (''to-dos'', ap_to_dos b = None),
                          (''completed'', ap_completed b = None),
                          (''canceled'', ap_canceled b = None),
                          (''reveal'', ap_reveal b = None),
                          (''creation-date'', ap_creation_date b = None),
                          (''completion-date'', ap_completion_date b = None)].
       holds \<longrightarrow> usp_get key (add_project_params b) = None) \<and>
   (\<forall>(key, holds) \<in> set [(''reveal'', cs_reveal c = None)].
       holds \<longrightarrow> usp_get key (create_structured_project_params env data c) = None) \<and>
   (\<forall>(key, holds) \<in> set [(''title'', up_title u = None),
                          (''notes'', up_notes u = None),
                          (''prepend-notes'', up_prepend_notes u = None),
                          (''append-notes'', up_append_notes u = None),
                          (''when'', up_when u = None),
                          (''deadline'', up_deadline u = None),
                          (''tags'', up_tags u = None),
                          (''add-tags'', up_add_tags u = None),
                          (''checklist-items'', up_checklist_items u = None),
                          (''prepend-checklist-items'', up_prepend_checklist_items u = None),
                          (''append-checklist-items'', up_append_checklist_items u = None),
                          (''list-id'', up_list_id u = None),
                          (''list'', up_list u = None),
                          (''heading-id'', up_heading_id u = None),
                          (''heading'', up_heading u = None),
                          (''completed'', up_completed u = None),
                          (''canceled'', up_canceled u = None),
                          (''reveal'', up_reveal u = None),
                          (''duplicate'', up_duplicate u = None),
                          (''creation-date'', up_creation_date u = None),
                          (''completion-date'', up_completion_date u = None)].
       holds \<longrightarrow> usp_get key (update_params tok u) = None) \<and>
   (\<forall>(key, holds) \<in> set [(''title'', pp_title v = None),
                          (''notes'', pp_notes v = None),
                          (''prepend-notes'', pp_prepend_notes v = None),
                          (''append-notes'', pp_append_notes v = None),
                          (''when'', pp_when v = None),
                          (''deadline'', pp_deadline v = None),
                          (''tags'', pp_tags v = None),
                          (''add-tags'', pp_add_tags v = None),
                          (''area-id'', pp_area_id v = None),
                          (''area'', pp_area v = None),
                          (''completed'', pp_completed v = None),
                          (''canceled'', pp_canceled v = None),
                          (''reveal'', pp_reveal v = None),
                          (''duplicate'', pp_duplicate v = None),
                          (''creation-date'', pp_creation_date v = None),
                          (''completion-date'', pp_completion_date v = None)].
       holds \<longrightarrow> usp_get key (update_project_params tok v) = None) \<and>
   (\<forall>(key, holds) \<in> set [(''id'', sw_id s = None),
                          (''query'', sw_query s = None),
                          (''filter'', sw_filter s = None)].
       holds \<longrightarrow> usp_get key (show_params s) = None) \<and>
   (\<forall>(key, holds) \<in> set [(''query'', se_query q = None)].
       holds \<longrightarrow> usp_get key (search_params q) = None) \<and>
   (\<forall>(key, holds) \<in> set [(''reveal'', js_reveal j = None)].
       holds \<longrightarrow> usp_get key (json_params env j) = None) \<and>
   (\<forall>(key, holds) \<in> set [(''title'', at_title a = Some []),
                          (''titles'', at_titles a = Some []),
                          (''notes'', at_notes a = Some []),
                          (''when'', at_when a = Some []),
                          (''deadline'', at_deadline a = Some []),
                          (''tags'', at_tags a = Some []),
                          (''checklist-items'', at_checklist_items a = Some []),
                          (''list-id'', at_list_id a = Some []),
                          (''list'', at_list a = Some []),
                          (''heading-id'', at_heading_id a = Some []),
                          (''heading'', at_heading a = Some []),
                          (''creation-date'', at_creation_date a = Some []),
                          (''completion-date'', at_completion_date a = Some [])].
       holds \<longrightarrow> usp_get key (add_todo_params a) = None) \<and>
   (\<forall>(key, holds) \<in> set [(''notes'', ap_notes b = Some []),
                          (''when'', ap_when b = Some []),
                          (''deadline'', ap_deadline b = Some []),
                          (''tags'', ap_tags b = Some []),
                          (''area-id'', ap_area_id b = Some []),
                          (''area'', ap_area b = Some []),
                          (''to-dos'', ap_to_dos b = Some []),
                          (''creation-date'', ap_creation_date b = Some []),
                          (''completion-date'', ap_completion_date b = Some [])].
       holds \<longrightarrow> usp_get key (add_project_params b) = None) \<and>
   (\<forall>(key, holds) \<in> set [(''title'', up_title u = Some []),
                          (''prepend-notes'', up_prepend_notes u = Some []),
                          (''append-notes'', up_append_notes u = Some []),
                          (''list-id'', up_list_id u = Some []),
                          (''list'', up_list u = Some []),
                          (''heading-id'', up_heading_id u = Some []),
                          (''heading'', up_heading u = Some []),
                          (''creation-date'', up_creation_date u = Some []),
                          (''completion-date'', up_completion_date u = Some [])].
       holds \<longrightarrow> usp_get key (update_params tok u) = None) \<and>
   (\<forall>(key, holds) \<in> set [(''title'', pp_title v = Some []),
                          (''prepend-notes'', pp_prepend_notes v = Some []),
                          (''append-notes'', pp_append_notes v = Some []),
                          (''area-id'', pp_area_id v = Some []),
                          (''area'', pp_area v = Some []),
                          (''creation-date'', pp_creation_date v = Some []),
                          (''completion-date'', pp_completion_date v = Some [])].
       holds \<longrightarrow> usp_get key (update_project_params tok v) = None) \<and>
   (\<forall>(key, holds) \<in> set [(''id'', sw_id s = Some []),
                          (''query'', sw_query s = Some []),
                          (''filter'', sw_filter s = Some [])].
       holds \<longrightarrow> usp_get key (show_params s) = None) \<and>
   (\<forall>(key, holds) \<in> set [(''query'', se_query q = Some [])].
       holds \<longrightarrow> usp_get key (search_params q) = None) \<and>
   (\<forall>(key, holds) \<in> set [(''notes'', up_notes u = Some []),
                          (''when'', up_when u = Some []),
                          (''deadline'', up_deadline u = Some []),
                          (''tags'', up_tags u = Some []),
                          (''add-tags'', up_add_tags u = Some []),
                          (''checklist-items'', up_checklist_items u = Some []),
                          (''prepend-checklist-items'', up_prepend_checklist_items u = Some []),
                          (''append-checklist-items'', up_append_checklist_items u = Some [])].
       holds \<longrightarrow> usp_get key (update_params tok u) = Some []) \<and>
   (\<forall>(key, holds) \<in> set [(''notes'', pp_notes v = Some []),
                          (''when'', pp_when v = Some []),
                          (''deadline'', pp_deadline v = Some []),
                          (''tags'', pp_tags v = Some []),
                          (''add-tags'', pp_add_tags v = Some [])].
       holds \<longrightarrow> usp_get key (update_project_params tok v) = Some []) \<and>
   (\<forall>(key, holds) \<in> set [(''completed'', at_completed a = Some False),
                          (''canceled'', at_canceled a = Some False),
                          (''show-quick-entry'', at_show_quick_entry a = Some False),
                          (''reveal'', at_reveal a = Some False)].
       holds \<longrightarrow> usp_get key (add_todo_params a) = Some ''false'') \<and>
   (\<forall>(key, holds) \<in> set [(''completed'', ap_completed b = Some False),
                          (''canceled'', ap_canceled b = Some False),
                          (''reveal'', ap_reveal b = Some False)].
       holds \<longrightarrow> usp_get key (add_project_params b) = Some ''false'') \<and>
   (\<forall>(key, holds) \<in> set [(''reveal'', cs_reveal c = Some False)].
       holds \<longrightarrow> usp_get key (create_structured_project_params env data c) = Some ''false'') \<and>
   (\<forall>(key, holds) \<in> set [(''completed'', up_completed u = Some False),
                          (''canceled'', up_canceled u = Some False),
                          (''reveal'', up_reveal u = Some False),
                          (''duplicate'', up_duplicate u = Some False)].
       holds \<longrightarrow> usp_get key (update_params tok u) = Some ''false'') \<and>
   (\<forall>(key, holds) \<in> set [(''completed'', pp_completed v = Some False),
                          (''canceled'', pp_canceled v = Some False),
                          (''reveal'', pp_reveal v = Some False),
                          (''duplicate'', pp_duplicate v = Some False)].
       holds \<longrightarrow> usp_get key (update_project_params tok v) = Some ''false'') \<and>
   (\<forall>(key, holds) \<in> set [(''reveal'', js_reveal j = Some False)].
       holds \<longrightarrow> usp_get key (json_params env j) = Some ''false'') \<and>
   (js_auth_token j = None \<and> \<not> truthy env \<longrightarrow>
      usp_get ''auth-token'' (json_params env j) = None) \<and>
   (cs_auth_token c = None \<and> \<not> truthy env \<longrightarrow>
      usp_get ''auth-token'' (create_structured_project_params env data c) = None)"
  by (intro conjI add_todo_absent add_project_absent create_structured_project_absent update_absent update_project_absent show_absent search_absent json_absent add_todo_omit_empty add_project_omit_empty update_omit_empty update_project_omit_empty show_omit_empty search_omit_empty update_keep_empty update_project_keep_empty add_todo_false add_project_false create_structured_project_false update_false update_project_false json_false auth_token_omitted)

theorem optional_fields_omitted_witness:
  "at_notes add_todo_none = None \<and>
   usp_get ''notes'' (add_todo_params add_todo_none) = None \<and>
   at_tags (add_todo_none\<lparr>at_tags := Some [], at_completed := Some False\<rparr>) = Some [] \<and>
   usp_get ''tags'' (add_todo_params (add_todo_none\<lparr>at_tags := Some [], at_completed := Some False\<rparr>)) = None \<and>
   usp_get ''completed'' (add_todo_params (add_todo_none\<lparr>at_tags := Some [], at_completed := Some False\<rparr>)) =
     Some ''false'' \<and>
   up_title (update_only_id ''T1'') = None \<and>
   usp_get ''title'' (update_params ''tok'' (update_only_id ''T1'')) = None \<and>
   usp_get ''notes'' (update_params ''tok'' ((update_only_id ''T1'')\<lparr>up_notes := Some [], up_tags := Some []\<rparr>)) =
     Some [] \<and>
   usp_get ''tags'' (update_params ''tok'' ((update_only_id ''T1'')\<lparr>up_notes := Some [], up_tags := Some []\<rparr>)) =
     Some []"
  using optional_fields_omitted[where a = add_todo_none and u = "update_only_id ''T1''" and tok = "''tok''"]
    optional_fields_omitted[where a = "add_todo_none\<lparr>at_tags := Some [], at_completed := Some False\<rparr>"
      and u = "(update_only_id ''T1'')\<lparr>up_notes := Some [], up_tags := Some []\<rparr>" and tok = "''tok''"]
  by (simp add: add_todo_none_def update_only_id_def)

text \<open>
  C5, as stated, fails for falsy fields: \<^verbatim>\<open>update\<close> with \<^verbatim>\<open>notes: ""\<close> sends
  \<^verbatim>\<open>notes=\<close>, with \<^verbatim>\<open>tags: []\<close> it sends \<^verbatim>\<open>tags=\<close>, and \<^verbatim>\<open>add-todo\<close> with
  \<^verbatim>\<open>completed: false\<close> sends \<^verbatim>\<open>completed=false\<close>.
\<close>

theorem empty_notes_sent_counterexample:
  "up_notes ((update_only_id ''T1'')\<lparr>up_notes := Some []\<rparr>) = Some [] \<and>
   usp_toString (update_params ''tok'' ((update_only_id ''T1'')\<lparr>up_notes := Some []\<rparr>)) =
     ''id=T1&auth-token=tok&notes='' \<and>
   usp_toString (update_params ''tok'' ((update_only_id ''T1'')\<lparr>up_tags := Some []\<rparr>)) =
     ''id=T1&auth-token=tok&tags='' \<and>
   usp_toString (add_todo_params (add_todo_none\<lparr>at_completed := Some False\<rparr>)) =
     ''completed=false''"
  by (simp add: update_only_id_def add_todo_none_def update_params_def add_todo_params_def
      set_truthy_def set_defined_def set_bool_def set_joined_defined_def set_joined_nonempty_def
      usp_toString_def encode_pair_def form_encode_def form_encode_byte_def is_form_safe_def
      is_alnum_def percent_encode_byte_def hex_digit_def)

text \<open>
  C6: in the query parameters of every tool, the tag-like arrays (\<^verbatim>\<open>tags\<close>, \<^verbatim>\<open>add-tags\<close>,
  \<^verbatim>\<open>filter\<close>) are joined with a comma, the multi-line lists (\<^verbatim>\<open>checklist-items\<close> and its
  prepend and append variants, \<^verbatim>\<open>to-dos\<close>) with a line feed, and the booleans are written
  \<^verbatim>\<open>true\<close> or \<^verbatim>\<open>false\<close>. The URL that each tool opens is its prefix followed by the
  serialised parameters. The serialisation is the standard one, written out here byte by
  byte: pairs are \<^verbatim>\<open>name=value\<close> joined with \<^verbatim>\<open>&\<close>; in a name or value a space becomes
  \<^verbatim>\<open>+\<close>, an ASCII letter or digit or one of \<^verbatim>\<open>* - . _\<close> stays, and any other byte
  becomes \<^verbatim>\<open>%\<close> followed by its two upper-case hexadecimal digits. The serialised string
  consists of those characters only, parses back to the parameters, and is the string
  that the tests of the repository expect.
\<close>

theorem arrays_booleans_encoding:
  "usp_get ''tags'' (add_todo_params a) =
     (if has_length (at_tags a) then Some (js_join '','' (items_of (at_tags a))) else None) \<and>
   usp_get ''checklist-items'' (add_todo_params a) =
     (if has_length (at_checklist_items a) then Some (js_join [CHR 0x0A] (items_of (at_checklist_items a))) else None) \<and>
   usp_get ''completed'' (add_todo_params a) =
     map_option bool_toString (at_completed a) \<and>
   usp_get ''canceled'' (add_todo_params a) =
     map_option bool_toString (at_canceled a) \<and>
   usp_get ''show-quick-entry'' (add_todo_params a) =
     map_option bool_toString (at_show_quick_entry a) \<and>
   usp_get ''reveal'' (add_todo_params a) =
     map_option bool_toString (at_reveal a) \<and>
   usp_get ''tags'' (add_project_params b) =
     (if has_length (ap_tags b) then Some (js_join '','' (items_of (ap_tags b))) else None) \<and>
   usp_get ''to-dos'' (add_project_params b) =
     (if has_length (ap_to_dos b) then Some (js_join [CHR 0x0A] (items_of (ap_to_dos b))) else None) \<and>
   usp_get ''completed'' (add_project_params b) =
     map_option bool_toString (ap_completed b) \<and>
   usp_get ''canceled'' (add_project_params b) =
     map_option bool_toString (ap_canceled b) \<and>
   usp_get ''reveal'' (add_project_params b) =
     map_option bool_toString (ap_reveal b) \<and>
   usp_get ''reveal'' (create_structured_project_params env data c) =
     map_option bool_toString (cs_reveal c) \<and>
   usp_get ''tags'' (update_params tok u) =
     map_option (js_join '','') (up_tags u) \<and>
   usp_get ''add-tags'' (update_params tok u) =
     map_option (js_join '','') (up_add_tags u) \<and>
   usp_get ''checklist-items'' (update_params tok u) =
     map_option (js_join [CHR 0x0A]) (up_checklist_items u) \<and>
   usp_get ''prepend-checklist-items'' (update_params tok u) =
     map_option (js_join [CHR 0x0A]) (up_prepend_checklist_items u) \<and>
   usp_get ''append-checklist-items'' (update_params tok u) =
     map_option (js_join [CHR 0x0A]) (up_append_checklist_items u) \<and>
   usp_get ''completed'' (update_params tok u) =
     map_option bool_toString (up_completed u) \<and>
   usp_get ''canceled'' (update_params tok u) =
     map_option bool_toString (up_canceled u) \<and>
   usp_get ''reveal'' (update_params tok u) =
     map_option bool_toString (up_reveal u) \<and>
   usp_get ''duplicate'' (update_params tok u) =
     map_option bool_toString (up_duplicate u) \<and>
   usp_get ''tags'' (update_project_params tok v) =
     map_option (js_join '','') (pp_tags v) \<and>
   usp_get ''add-tags'' (update_project_params tok v) =
     map_option (js_join '','') (pp_add_tags v) \<and>
   usp_get ''completed'' (update_project_params tok v) =
     map_option bool_toString (pp_completed v) \<and>
   usp_get ''canceled'' (update_project_params tok v) =
     map_option bool_toString (pp_canceled v) \<and>
   usp_get ''reveal'' (update_project_params tok v) =
     map_option bool_toString (pp_reveal v) \<and>
   usp_get ''duplicate'' (update_project_params tok v) =
     map_option bool_toString (pp_duplicate v) \<and>
   usp_get ''filter'' (show_params s) =
     (if has_length (sw_filter s) then Some (js_join '','' (items_of (sw_filter s))) else None) \<and>
   usp_get ''reveal'' (json_params env j) =
     map_option bool_toString (js_reveal j) \<and>
   bool_toString True = ''true'' \<and> bool_toString False = ''false'' \<and>
   list_all (\<lambda>c. is_form_safe c \<or> c \<in> set ''+%=&'') (usp_toString ps) \<and>
   usp_toString [(''tags'', js_join '','' [''work'', ''urgent'', ''follow-up''])] =
     ''tags=work%2Curgent%2Cfollow-up'' \<and>
   usp_toString [(''to-dos'', js_join [CHR 0x0A] [''Buy milk'', ''Call dentist'', ''Review PR''])] =
     ''to-dos=Buy+milk%0ACall+dentist%0AReview+PR'' \<and>
   usp_toString [(''completed'', bool_toString True), (''reveal'', bool_toString False)] =
     ''completed=true&reveal=false'' \<and>
   usp_toString ps =
     js_join ''&'' (map (\<lambda>(n, v). form_encode n @ ''='' @ form_encode v) ps) \<and>
   form_encode str =
     concat (map (\<lambda>ch. if ch = CHR '' '' then ''+''
                         else if ch \<in> set ''ABCDEFGHIJKLMNOPQRSTUVWXYZabcdefghijklmnopqrstuvwxyz0123456789*-._''
                         then [ch]
                         else [CHR ''%'', hex_digit ((of_char ch :: nat) div 16),
                               hex_digit ((of_char ch :: nat) mod 16)]) str) \<and>
   map hex_digit [0..<16] = ''0123456789ABCDEF'' \<and>
   js_join sep [] = [] \<and> js_join sep [x] = x \<and>
   js_join sep (x # y # ys) = x @ sep @ js_join sep (y # ys) \<and>
   urlencoded_parse (usp_toString ps) = ps \<and>
   snd (add_todo_tool w a) = [SpawnOpen (''things:///add?'' @ usp_toString (add_todo_params a))] \<and>
   snd (add_project_tool w b) =
     [SpawnOpen (''things:///add-project?'' @ usp_toString (add_project_params b))] \<and>
   snd (create_structured_project_tool w c) =
     [SpawnOpen (''things:///json?'' @
        usp_toString (create_structured_project_params (env_THINGS_AUTH_TOKEN w)
          (json_stringify w (JArr (buildStructuredProjectPayload (cs_project c)))) c))] \<and>
   snd (update_tool w u) =
     (case resolveAuthToken w (up_auth_token u) of
        Inl e \<Rightarrow> []
      | Inr t \<Rightarrow> [SpawnOpen (''things:///update?'' @ usp_toString (update_params t u))]) \<and>
   snd (update_project_tool w v) =
     (case resolveAuthToken w (pp_auth_token v) of
        Inl e \<Rightarrow> []
      | Inr t \<Rightarrow> [SpawnOpen (''things:///update-project?'' @ usp_toString (update_project_params t v))]) \<and>
   snd (restructure_project_tool w r) =
     (if operations (buildRestructurePayload (rp_project_id r) (randomUUID w) (rp_layout r)) = []
      then []
      else (case resolveAuthToken w (rp_auth_token r) of
              Inl e \<Rightarrow> []
            | Inr t \<Rightarrow>
                [SpawnOpen (''things:///json?'' @
                   usp_toString (restructure_project_params t
                     (json_stringify w (JArr (operations
                        (buildRestructurePayload (rp_project_id r) (randomUUID w)
                           (rp_layout r)))))))])) \<and>
   snd (show_tool w s) = [SpawnOpen (''things:///show?'' @ usp_toString (show_params s))] \<and>
   snd (search_tool w q) = [SpawnOpen (''things:///search?'' @ usp_toString (search_params q))] \<and>
   snd (json_tool w j) =
     [SpawnOpen (''things:///json?'' @ usp_toString (json_params (env_THINGS_AUTH_TOKEN w) j))] \<and>
   snd (add_todo_tool (quiet_world None)
     (add_todo_none\<lparr>at_title := Some ''Plan: a&b=c?'', at_tags := Some [''work'', ''urgent''],
        at_checklist_items := Some [''Buy milk'', ''Call''], at_reveal := Some True\<rparr>)) =
   [SpawnOpen ''things:///add?title=Plan%3A+a%26b%3Dc%3F&tags=work%2Curgent&checklist-items=Buy+milk%0ACall&reveal=true'']"
  by (intro conjI add_todo_lookup add_project_lookup create_structured_project_lookup update_lookup update_project_lookup show_lookup search_lookup json_lookup bool_toString.simps toString_chars encoding_examples
      usp_toString_explicit form_encode_explicit hex_digit_table js_join.simps parse_toString
      tool_calls update_tool_calls restructure_tool_url add_todo_url_example)

text \<open>
  C7, as amended. Parsing the serialised query string gives back the list of name/value
  pairs. Splitting a joined list at the delimiter gives back the list when the list is
  not empty and no element contains the delimiter; so the \<^verbatim>\<open>tags\<close> and the
  \<^verbatim>\<open>checklist-items\<close> of \<^verbatim>\<open>add-todo\<close> are recovered from the query string under that
  condition.
\<close>

theorem query_round_trip:
  "urlencoded_parse (usp_toString ps) = ps \<and>
   (xs \<noteq> [] \<and> (\<forall>x\<in>set xs. d \<notin> set x) \<longrightarrow> split_on d (js_join [d] xs) = xs) \<and>
   (has_length (at_tags a) \<and> (\<forall>t\<in>set (items_of (at_tags a)). CHR '','' \<notin> set t) \<longrightarrow>
      map_option (split_on CHR '','')
        (usp_get ''tags'' (urlencoded_parse (usp_toString (add_todo_params a)))) = at_tags a) \<and>
   (has_length (at_checklist_items a) \<and>
    (\<forall>t\<in>set (items_of (at_checklist_items a)). CHR 0x0A \<notin> set t) \<longrightarrow>
      map_option (split_on (CHR 0x0A))
        (usp_get ''checklist-items'' (urlencoded_parse (usp_toString (add_todo_params a)))) =
      at_checklist_items a)"
  using parse_toString[of ps] split_on_join[of xs d] tags_round_trip[of a] checklist_round_trip[of a]
  by blast

theorem query_round_trip_witness:
  "[''work'', ''urgent''] \<noteq> [] \<and>
   CHR '','' \<notin> set ''work'' \<and> CHR '','' \<notin> set ''urgent'' \<and>
   split_on CHR '','' (js_join '','' [''work'', ''urgent'']) = [''work'', ''urgent''] \<and>
   has_length (at_tags (add_todo_none\<lparr>at_tags := Some [''work'', ''urgent''],
      at_checklist_items := Some [''one'', ''two'']\<rparr>)) \<and>
   map_option (split_on CHR '','')
     (usp_get ''tags'' (urlencoded_parse (usp_toString (add_todo_params
        (add_todo_none\<lparr>at_tags := Some [''work'', ''urgent''],
           at_checklist_items := Some [''one'', ''two'']\<rparr>))))) = Some [''work'', ''urgent''] \<and>
   map_option (split_on (CHR 0x0A))
     (usp_get ''checklist-items'' (urlencoded_parse (usp_toString (add_todo_params
        (add_todo_none\<lparr>at_tags := Some [''work'', ''urgent''],
           at_checklist_items := Some [''one'', ''two'']\<rparr>))))) = Some [''one'', ''two'']"
  using query_round_trip[where xs = "[''work'', ''urgent'']" and d = "CHR '',''" and ps = "[]"
      and a = "add_todo_none\<lparr>at_tags := Some [''work'', ''urgent''],
           at_checklist_items := Some [''one'', ''two'']\<rparr>"]
  by (simp add: add_todo_none_def del: map_option_eq_Some)

text \<open>
  C7, as stated, fails for a list element that contains the delimiter: the tags
  \<^verbatim>\<open>["a,b", "c"]\<close> come back as \<^verbatim>\<open>["a", "b", "c"]\<close>. It also fails for the empty list that
  \<^verbatim>\<open>update\<close> sends: it comes back as \<^verbatim>\<open>[""]\<close>.
\<close>

theorem list_with_delimiter_counterexample:
  "split_on CHR '','' (js_join '','' [''a,b'', ''c'']) = [''a'', ''b'', ''c''] \<and>
   map_option (split_on CHR '','')
     (usp_get ''tags'' (urlencoded_parse (usp_toString (add_todo_params
        (add_todo_none\<lparr>at_tags := Some [''a,b'', ''c'']\<rparr>))))) = Some [''a'', ''b'', ''c''] \<and>
   [''a'', ''b'', ''c''] \<noteq> [''a,b'', ''c''] \<and>
   map_option (split_on CHR '','')
     (usp_get ''tags'' (urlencoded_parse (usp_toString (update_params ''tok''
        ((update_only_id ''T1'')\<lparr>up_tags := Some []\<rparr>))))) = Some [[]]"
  by (simp add: parse_toString add_todo_lookup update_lookup add_todo_none_def update_only_id_def)

text \<open>
  C8: a tool invocation makes at most one external call and ends with a result or an
  error; the call is the \<^verbatim>\<open>osascript\<close> subprocess for \<^verbatim>\<open>evaluate\<close> and the spawned
  \<^verbatim>\<open>open\<close> process for every other tool.
\<close>

theorem at_most_one_external_call:
  "length (snd (invoke w call)) \<le> 1 \<and>
   list_all (\<lambda>c. is_exec_call c = is_evaluate call) (snd (invoke w call))"
proof (cases call)
  case (RestructureProject r)
  then show ?thesis
    using restructure_tool_calls[of w r] by (simp add: is_evaluate_def list_all_iff)
next
  case (Evaluate e)
  then show ?thesis
    using evaluate_tool_calls[of w e] by (simp add: is_evaluate_def list_all_iff)
qed (simp_all add: tool_calls update_tool_calls is_evaluate_def is_exec_call_def split: sum.splits)

end
